theory Spec2Isabelle
  imports Complex_Main
begin

section \<open>Python values used by the frame-to-text pipeline\<close>

text \<open>
  A Python \<open>str\<close> is a \<open>string\<close>; each \<open>char\<close> stands for one code point
  below 256, so \<open>length\<close> is Python's \<open>len\<close> on such strings. An exception is a
  value: its class and the message \<open>str(e)\<close> prints. A call that may raise returns
  \<open>pyexn + 'a\<close>, with \<open>Inl\<close> the exception; these are the exceptions an
  \<open>except Exception\<close> clause catches. Logging is not modelled: it writes to the log
  and returns; the one exception is the model of \<open>perform_ocr_on_frames\<close> with the
  failure points of its body, below. Closing an image at the end of a \<open>with\<close> block
  is not modelled either.
\<close>

datatype exn_class =
    FileNotFoundError | PermissionError | ValueError | OSError
  | TimeoutExpired | IndexError | TesseractError | OtherException

datatype pyexn = PyExn exn_class string

fun str_exn :: "pyexn \<Rightarrow> string" where
  "str_exn (PyExn c m) = m"

fun exn_type :: "pyexn \<Rightarrow> exn_class" where
  "exn_type (PyExn c m) = c"

text \<open>\<open>str.isspace\<close> on one code point below 256, and \<open>str.strip()\<close>.\<close>

definition isspace :: "char \<Rightarrow> bool" where
  "isspace c =
     (let n = (of_char c :: nat)
      in (9 \<le> n \<and> n \<le> 13) \<or> (28 \<le> n \<and> n \<le> 32) \<or> n = 133 \<or> n = 160)"

definition strip :: "string \<Rightarrow> string" where
  "strip s = rev (dropWhile isspace (rev (dropWhile isspace s)))"

definition startswith :: "string \<Rightarrow> string \<Rightarrow> bool" where
  "startswith s pre = (take (length pre) s = pre)"

text \<open>\<open>sep.join(xs)\<close>.\<close>

fun join :: "string \<Rightarrow> string list \<Rightarrow> string" where
  "join sep [] = []"
| "join sep [x] = x"
| "join sep (x # y # ys) = x @ sep @ join sep (y # ys)"

text \<open>
  \<open>max(xs, key=len)\<close>: CPython keeps the first element and replaces it only by a
  strictly longer one, so the earliest of the longest wins. On the empty list Python
  raises \<open>ValueError\<close>; both call sites test the list first.
\<close>

fun max_scan :: "'a list \<Rightarrow> 'a list list \<Rightarrow> 'a list" where
  "max_scan best [] = best"
| "max_scan best (x # xs) = max_scan (if length best < length x then x else best) xs"

definition max_by_len :: "'a list list \<Rightarrow> pyexn + 'a list" where
  "max_by_len xs =
     (case xs of
        [] \<Rightarrow> Inl (PyExn ValueError ''max() arg is an empty sequence'')
      | x # rest \<Rightarrow> Inr (max_scan x rest))"

text \<open>
  The pattern \<open>[A-Za-z0-9]{3,}\<close> and \<open>findall\<close>: at each position the greedy match
  takes the whole run of class characters; a run of three or more is a match and the
  scan goes on after it, otherwise the scan moves one character on.
\<close>

definition word_char :: "char \<Rightarrow> bool" where
  "word_char c =
     (let n = (of_char c :: nat)
      in (65 \<le> n \<and> n \<le> 90) \<or> (97 \<le> n \<and> n \<le> 122) \<or> (48 \<le> n \<and> n \<le> 57))"

function findall :: "string \<Rightarrow> string list" where
  "findall [] = []"
| "findall (c # cs) =
     (if 3 \<le> length (takeWhile word_char (c # cs))
      then takeWhile word_char (c # cs) # findall (dropWhile word_char (c # cs))
      else findall cs)"
  by pat_completeness auto
termination
proof (relation "measure length")
  show "wf (measure length)" by simp
next
  fix c :: char and cs :: string
  assume "3 \<le> length (takeWhile word_char (c # cs))"
  then have "word_char c" by (auto split: if_splits)
  then have "length (dropWhile word_char (c # cs)) \<le> length cs"
    by (simp add: length_dropWhile_le)
  then show "(dropWhile word_char (c # cs), c # cs) \<in> measure length" by simp
next
  fix c :: char and cs :: string
  show "(cs, c # cs) \<in> measure length" by simp
qed

section \<open>The OCR pipeline: batch recognition\<close>

text \<open>\<open>perform_ocr_on_frames\<close> of \<open>utils/ocr_engine.py\<close>, whose argument is a list of paths.\<close>

record recognition_record =
  frame_number :: nat
  frame_path :: string
  text_of :: string

text \<open>The accumulators of the loop of \<open>perform_ocr_on_frames\<close>.\<close>

record batch_state =
  ocr_results :: "recognition_record list"
  error_count :: nat
  success_count :: nat
  empty_count :: nat

definition generic_error_text :: string where
  "generic_error_text = ''Error: OCR processing failed. Please try a different image.''"

definition no_text_detected :: string where
  "no_text_detected = ''No text detected''"

text \<open>
  One iteration of the loop over \<open>enumerate(frames_paths)\<close>. The per-frame call is the
  parameter \<open>recognize\<close>: it is given the position of the frame, since the file system
  and the OCR engine may answer differently from one call to the next, and it returns
  the text or the exception it raised.
\<close>

definition frame_step ::
  "(nat \<Rightarrow> string \<Rightarrow> pyexn + string) \<Rightarrow> batch_state \<Rightarrow> nat \<times> string \<Rightarrow> batch_state" where
  "frame_step recognize s ip =
     (case ip of (idx, path) \<Rightarrow>
        (case recognize idx path of
           Inr extracted_text \<Rightarrow>
             (let s1 =
                (if startswith extracted_text ''Error:''
                 then s\<lparr>error_count := error_count s + 1\<rparr>
                 else if extracted_text = [] \<or> extracted_text = no_text_detected
                 then s\<lparr>empty_count := empty_count s + 1\<rparr>
                 else s\<lparr>success_count := success_count s + 1\<rparr>)
              in s1\<lparr>ocr_results := ocr_results s1 @
                   [\<lparr>frame_number = idx + 1, frame_path = path, text_of = extracted_text\<rparr>]\<rparr>)
         | Inl frame_err \<Rightarrow>
             s\<lparr>ocr_results := ocr_results s @
                  [\<lparr>frame_number = idx + 1, frame_path = path, text_of = generic_error_text\<rparr>],
               error_count := error_count s + 1\<rparr>))"

definition initial_state :: batch_state where
  "initial_state = \<lparr>ocr_results = [], error_count = 0, success_count = 0, empty_count = 0\<rparr>"

definition process_frames ::
  "(nat \<Rightarrow> string \<Rightarrow> pyexn + string) \<Rightarrow> string list \<Rightarrow> batch_state" where
  "process_frames recognize frames_paths =
     foldl (frame_step recognize) initial_state (enumerate 0 frames_paths)"

text \<open>
  The cross-frame analysis, run when \<open>success_count > 0\<close>. Its \<open>try\<close> swallows every
  exception of the block and leaves the results as they were.
\<close>

definition quote :: string where
  "quote = [CHR 0x27]"

definition combined_analysis ::
  "string list \<Rightarrow> recognition_record list \<Rightarrow> pyexn + recognition_record list" where
  "combined_analysis frames_paths results =
     (let all_text =
            join '' '' (map text_of (filter (\<lambda>r. \<not> startswith (text_of r) ''Error:''
                                              \<and> text_of r \<noteq> no_text_detected) results));
          words = findall all_text
      in if words \<noteq> [] then
           (case max_by_len words of
              Inl e \<Rightarrow> Inl e
            | Inr longest_word \<Rightarrow>
                if 4 \<le> length longest_word then
                  Inr (results @
                    [\<lparr>frame_number = length frames_paths + 1,
                      frame_path = ''combined_analysis'',
                      text_of = ''Combined analysis: Found text pattern '' @ quote
                               @ longest_word @ quote\<rparr>])
                else Inr results)
         else Inr results)"

definition aggregate :: "string list \<Rightarrow> batch_state \<Rightarrow> recognition_record list" where
  "aggregate frames_paths s =
     (if 0 < success_count s then
        (case combined_analysis frames_paths (ocr_results s) of
           Inl analysis_err \<Rightarrow> ocr_results s
         | Inr results \<Rightarrow> results)
      else ocr_results s)"

text \<open>The body of the outer \<open>try\<close>, and the handler of a fatal error.\<close>

definition frames_body ::
  "(nat \<Rightarrow> string \<Rightarrow> pyexn + string) \<Rightarrow> string list \<Rightarrow> pyexn + recognition_record list" where
  "frames_body recognize frames_paths =
     (if frames_paths = [] then Inr []
      else Inr (aggregate frames_paths (process_frames recognize frames_paths)))"

definition fatal_result :: "string list \<Rightarrow> recognition_record list" where
  "fatal_result frames_paths =
     [\<lparr>frame_number = 1,
       frame_path = (if frames_paths \<noteq> [] \<and> 0 < length frames_paths
                     then frames_paths ! 0 else []),
       text_of = generic_error_text\<rparr>]"

definition perform_ocr_on_frames_with ::
  "(nat \<Rightarrow> string \<Rightarrow> pyexn + string) \<Rightarrow> string list \<Rightarrow> pyexn + recognition_record list" where
  "perform_ocr_on_frames_with recognize frames_paths =
     (case frames_body recognize frames_paths of
        Inr results \<Rightarrow> Inr results
      | Inl e \<Rightarrow> Inr (fatal_result frames_paths))"






section \<open>The world outside: file system, image codec, OCR engine\<close>

text \<open>
  Every call that leaves the program is a field of the world: the answer the file
  system, the image library or the OCR engine gives to that call. \<open>'img\<close> is the type
  of decoded images; nothing is assumed about it. The factor of an enhancement is the
  literal of the source. An answer depends on the arguments of the call only; the batch
  is given one world for each position, the world as the call for that frame finds it.
  Each function of the model returns, beside its result, the calls it made to the file
  system, the image files and the engine, in order; the operations on a decoded image
  in memory are not listed.
\<close>

datatype enhancer = Contrast | Sharpness | Brightness

record completed_process =
  returncode :: int
  stdout :: string
  stderr :: string

record 'img world =
  subprocess_run :: "string list \<Rightarrow> pyexn + completed_process"
  os_path_exists :: "string \<Rightarrow> bool"
  os_path_getsize :: "string \<Rightarrow> pyexn + nat"
  os_makedirs :: "string \<Rightarrow> pyexn option"
  write_file :: "string \<Rightarrow> string \<Rightarrow> pyexn option"
  os_remove :: "string \<Rightarrow> pyexn option"
  uuid4_hex :: "nat \<Rightarrow> string"
  image_open :: "string \<Rightarrow> pyexn + 'img"
  n_frames :: "'img \<Rightarrow> pyexn + nat"
  img_seek :: "'img \<Rightarrow> nat \<Rightarrow> pyexn option"
  img_copy :: "'img \<Rightarrow> nat \<Rightarrow> pyexn + 'img"
  img_mode :: "'img \<Rightarrow> string"
  img_convert :: "string \<Rightarrow> 'img \<Rightarrow> pyexn + 'img"
  img_enhance :: "enhancer \<Rightarrow> real \<Rightarrow> 'img \<Rightarrow> pyexn + 'img"
  img_blur :: "real \<Rightarrow> 'img \<Rightarrow> pyexn + 'img"
  img_save :: "'img \<Rightarrow> string \<Rightarrow> pyexn option"
  image_to_string :: "'img \<Rightarrow> string \<Rightarrow> pyexn + string"

datatype 'img syscall =
    Sys_run "string list"
  | Sys_exists string
  | Sys_getsize string
  | Sys_makedirs string
  | Sys_write string string
  | Sys_remove string
  | Sys_image_open string
  | Sys_image_save 'img string
  | Sys_image_to_string 'img string

section \<open>The OCR pipeline: one frame\<close>

text \<open>\<open>check_tesseract\<close>, \<open>enhance_image_for_ocr\<close> and \<open>perform_ocr_on_frame\<close> of
  \<open>utils/ocr_engine.py\<close>.\<close>

definition version_cmd :: "string list" where
  "version_cmd = [''tesseract'', ''--version'']"

definition list_langs_cmd :: "string list" where
  "list_langs_cmd = [''tesseract'', ''--list-langs'']"

text \<open>
  \<open>check_tesseract\<close>: every exception of the body is caught and answered \<open>False\<close>;
  that includes the \<open>IndexError\<close> of \<open>result.stdout.splitlines()[0]\<close> when the
  version command printed nothing, and a failure of the second command.
\<close>

definition check_tesseract :: "'img world \<Rightarrow> (pyexn + bool) \<times> 'img syscall list" where
  "check_tesseract w =
     (case subprocess_run w version_cmd of
        Inl e \<Rightarrow> (Inr False, [Sys_run version_cmd])
      | Inr result \<Rightarrow>
          if returncode result = 0 then
            (if stdout result = [] then (Inr False, [Sys_run version_cmd])
             else
               (case subprocess_run w list_langs_cmd of
                  Inl e \<Rightarrow> (Inr False, [Sys_run version_cmd, Sys_run list_langs_cmd])
                | Inr lang_result \<Rightarrow>
                    (Inr True, [Sys_run version_cmd, Sys_run list_langs_cmd])))
          else (Inr False, [Sys_run version_cmd]))"

text \<open>
  \<open>enhance_image_for_ocr\<close>: on any exception the handler returns \<open>img\<close>, which by
  then is the RGB conversion when the mode was RGBA or P.
\<close>

definition enhance_image_for_ocr :: "'img world \<Rightarrow> 'img \<Rightarrow> 'img" where
  "enhance_image_for_ocr w img =
     (case (if img_mode w img = ''RGBA'' then img_convert w ''RGB'' img
            else if img_mode w img = ''P'' then img_convert w ''RGB'' img
            else Inr img) of
        Inl e \<Rightarrow> img
      | Inr rgb \<Rightarrow>
          (case img_convert w ''L'' rgb of
             Inl e \<Rightarrow> rgb
           | Inr gray_img \<Rightarrow>
               (case img_enhance w Contrast 2.0 gray_img of
                  Inl e \<Rightarrow> rgb
                | Inr contrast_img \<Rightarrow>
                    (case img_enhance w Sharpness 2.0 contrast_img of
                       Inl e \<Rightarrow> rgb
                     | Inr sharp_img \<Rightarrow>
                         (case img_blur w 0.5 sharp_img of
                            Inl e \<Rightarrow> rgb
                          | Inr blur_img \<Rightarrow> blur_img)))))"

definition sparse_config :: string where
  "sparse_config = ''--oem 3 --psm 11''"

text \<open>
  One recognition attempt: the call, and what it appends to \<open>results\<close>. An attempt
  that raises appends nothing; so does one whose text is empty once stripped.
\<close>

definition attempt :: "'img world \<Rightarrow> 'img \<Rightarrow> string \<Rightarrow> string list" where
  "attempt w img config =
     (case image_to_string w img config of
        Inl e \<Rightarrow> []
      | Inr t \<Rightarrow> if strip t \<noteq> [] then [strip t] else [])"

definition recognition_results :: "'img world \<Rightarrow> 'img \<Rightarrow> string list" where
  "recognition_results w img =
     attempt w img [] @ attempt w (enhance_image_for_ocr w img) [] @ attempt w img sparse_config"

definition recognition_calls :: "'img world \<Rightarrow> 'img \<Rightarrow> 'img syscall list" where
  "recognition_calls w img =
     [Sys_image_to_string img [],
      Sys_image_to_string (enhance_image_for_ocr w img) [],
      Sys_image_to_string img sparse_config]"

text \<open>The block under the inner \<open>try\<close>: open the image, attempt, choose.\<close>

definition recognize_image :: "'img world \<Rightarrow> string \<Rightarrow> (pyexn + string) \<times> 'img syscall list" where
  "recognize_image w fpath =
     (case image_open w fpath of
        Inl img_err \<Rightarrow>
          (Inr (''Error: Invalid image file: '' @ str_exn img_err), [Sys_image_open fpath])
      | Inr img \<Rightarrow>
          (let results = recognition_results w img;
               calls = Sys_image_open fpath # recognition_calls w img
           in if results \<noteq> [] then
                (case max_by_len results of
                   Inl img_err \<Rightarrow> (Inr (''Error: Invalid image file: '' @ str_exn img_err), calls)
                 | Inr best_text \<Rightarrow> (Inr best_text, calls))
              else (Inr no_text_detected, calls)))"

text \<open>The block under the outer \<open>try\<close>: the two checks of the file, then the image.\<close>

definition frame_body :: "'img world \<Rightarrow> string \<Rightarrow> (pyexn + string) \<times> 'img syscall list" where
  "frame_body w fpath =
     (if \<not> os_path_exists w fpath then
        (Inr ''Error: Frame file not found'', [Sys_exists fpath])
      else
        (case os_path_getsize w fpath of
           Inl e \<Rightarrow> (Inl e, [Sys_exists fpath, Sys_getsize fpath])
         | Inr file_size \<Rightarrow>
             if file_size = 0 then
               (Inr ''Error: Frame file is empty'', [Sys_exists fpath, Sys_getsize fpath])
             else
               (case recognize_image w fpath of
                  (r, calls) \<Rightarrow> (r, [Sys_exists fpath, Sys_getsize fpath] @ calls))))"

definition perform_ocr_on_frame :: "'img world \<Rightarrow> string \<Rightarrow> (pyexn + string) \<times> 'img syscall list" where
  "perform_ocr_on_frame w fpath =
     (case check_tesseract w of
        (Inl e, probe) \<Rightarrow> (Inl e, probe)
      | (Inr available, probe) \<Rightarrow>
          if \<not> available then (Inr ''Error: Tesseract OCR is not available'', probe)
          else
            (case frame_body w fpath of
               (Inl e, calls) \<Rightarrow> (Inr ''Error: OCR processing failed for this frame'', probe @ calls)
             | (Inr t, calls) \<Rightarrow> (Inr t, probe @ calls)))"

text \<open>
  \<open>perform_ocr_on_frames\<close>: the batch with \<open>perform_ocr_on_frame\<close> as its per-frame
  call; \<open>ws idx\<close> is the world as the call for position \<open>idx\<close> finds it.
\<close>

definition perform_ocr_on_frames ::
  "(nat \<Rightarrow> 'img world) \<Rightarrow> string list \<Rightarrow> pyexn + recognition_record list" where
  "perform_ocr_on_frames ws frames_paths =
     perform_ocr_on_frames_with (\<lambda>idx path. fst (perform_ocr_on_frame (ws idx) path)) frames_paths"

section \<open>The frame extractor\<close>

text \<open>\<open>extract_frames_from_image\<close> of \<open>utils/image_processor.py\<close>, in the order of its
  blocks: the frame loop first, then the blocks that come before it.\<close>

text \<open>\<open>os.path.join\<close> of two components (POSIX), and \<open>str\<close> of a non-negative int.\<close>

definition os_path_join :: "string \<Rightarrow> string \<Rightarrow> string" where
  "os_path_join a b =
     (if b \<noteq> [] \<and> hd b = CHR ''/'' then b
      else if a = [] \<or> last a = CHR ''/'' then a @ b
      else a @ ''/'' @ b)"

fun str_nat :: "nat \<Rightarrow> string" where
  "str_nat n =
     (if n < 10 then [char_of (48 + n)]
      else str_nat (n div 10) @ [char_of (48 + n mod 10)])"

definition frame_filename :: "'img world \<Rightarrow> nat \<Rightarrow> string" where
  "frame_filename w frame_idx = ''frame_'' @ str_nat frame_idx @ ''_'' @ uuid4_hex w frame_idx @ ''.jpg''"

text \<open>
  The three enhancement passes under one \<open>try\<close>. Each pass assigns its result to
  \<open>frame\<close>; when a pass raises, the handler logs a warning and \<open>frame\<close> keeps the value
  the last completed pass gave it.
\<close>

definition enhance_frame :: "'img world \<Rightarrow> 'img \<Rightarrow> 'img" where
  "enhance_frame w frame =
     (case img_enhance w Contrast 1.5 frame of
        Inl enhance_err \<Rightarrow> frame
      | Inr contrasted \<Rightarrow>
          (case img_enhance w Sharpness 1.5 contrasted of
             Inl enhance_err \<Rightarrow> contrasted
           | Inr sharpened \<Rightarrow>
               (case img_enhance w Brightness 1.2 sharpened of
                  Inl enhance_err \<Rightarrow> sharpened
                | Inr brightened \<Rightarrow> brightened)))"

text \<open>
  The body of the loop for one frame index: the path it appended to \<open>frames_paths\<close>, or
  \<open>None\<close> when the frame was dropped (an exception in the body, or a file that is
  missing or empty after the save).
\<close>

definition process_frame ::
  "'img world \<Rightarrow> 'img \<Rightarrow> nat \<Rightarrow> string \<Rightarrow> nat \<Rightarrow> string option \<times> 'img syscall list" where
  "process_frame w img frames_count output_dir frame_idx =
     (case (if 1 < frames_count then img_seek w img frame_idx else None) of
        Some frame_err \<Rightarrow> (None, [])
      | None \<Rightarrow>
          (case img_copy w img frame_idx of
             Inl frame_err \<Rightarrow> (None, [])
           | Inr frame \<Rightarrow>
               (case (if img_mode w frame = ''RGBA'' \<or> img_mode w frame = ''P''
                      then img_convert w ''RGB'' frame else Inr frame) of
                  Inl frame_err \<Rightarrow> (None, [])
                | Inr rgb \<Rightarrow>
                    (let enhanced = enhance_frame w rgb;
                         fpath = os_path_join output_dir (frame_filename w frame_idx)
                     in case img_save w enhanced fpath of
                          Some frame_err \<Rightarrow> (None, [Sys_image_save enhanced fpath])
                        | None \<Rightarrow>
                            if \<not> os_path_exists w fpath then
                              (None, [Sys_image_save enhanced fpath, Sys_exists fpath])
                            else
                              (case os_path_getsize w fpath of
                                 Inl frame_err \<Rightarrow>
                                   (None, [Sys_image_save enhanced fpath, Sys_exists fpath,
                                           Sys_getsize fpath])
                               | Inr saved_size \<Rightarrow>
                                   if saved_size = 0 then
                                     (None, [Sys_image_save enhanced fpath, Sys_exists fpath,
                                             Sys_getsize fpath])
                                   else
                                     (Some fpath, [Sys_image_save enhanced fpath, Sys_exists fpath,
                                                   Sys_getsize fpath]))))))"

text \<open>The loop over \<open>range(frames_count)\<close>, with \<open>frames_paths\<close> and the calls so far.\<close>

definition loop_step ::
  "'img world \<Rightarrow> 'img \<Rightarrow> nat \<Rightarrow> string \<Rightarrow> string list \<times> 'img syscall list \<Rightarrow> nat
     \<Rightarrow> string list \<times> 'img syscall list" where
  "loop_step w img frames_count output_dir acc frame_idx =
     (case acc of (frames_paths, calls) \<Rightarrow>
        (case process_frame w img frames_count output_dir frame_idx of
           (None, made) \<Rightarrow> (frames_paths, calls @ made)
         | (Some fpath, made) \<Rightarrow> (frames_paths @ [fpath], calls @ made)))"

definition frames_loop ::
  "'img world \<Rightarrow> 'img \<Rightarrow> nat \<Rightarrow> string \<Rightarrow> string list \<times> 'img syscall list" where
  "frames_loop w img frames_count output_dir =
     foldl (loop_step w img frames_count output_dir) ([], []) [0..<frames_count]"

text \<open>
  The block under the inner \<open>try\<close>: open the image, run the loop. The \<open>ValueError\<close>
  raised for an empty \<open>frames_paths\<close> is raised inside that \<open>try\<close>, whose handler wraps
  every exception into \<open>ValueError("Invalid image file: ...")\<close>; the outer handler logs
  and re-raises.
\<close>

definition invalid_image :: "pyexn \<Rightarrow> pyexn" where
  "invalid_image img_err = PyExn ValueError (''Invalid image file: '' @ str_exn img_err)"

definition no_frames_error :: pyexn where
  "no_frames_error = PyExn ValueError ''No frames could be extracted from the image''"

definition read_frames ::
  "'img world \<Rightarrow> string \<Rightarrow> string \<Rightarrow> (pyexn + string list) \<times> 'img syscall list" where
  "read_frames w image_path output_dir =
     (case image_open w image_path of
        Inl img_err \<Rightarrow> (Inl (invalid_image img_err), [Sys_image_open image_path])
      | Inr img \<Rightarrow>
          (case n_frames w img of
             Inl img_err \<Rightarrow> (Inl (invalid_image img_err), [Sys_image_open image_path])
           | Inr frames_count \<Rightarrow>
               (case frames_loop w img frames_count output_dir of
                  (frames_paths, calls) \<Rightarrow>
                    if 0 < length frames_paths
                    then (Inr frames_paths, Sys_image_open image_path # calls)
                    else (Inl (invalid_image no_frames_error),
                          Sys_image_open image_path # calls))))"

text \<open>Creating the output directory when it is missing; \<open>os.makedirs\<close> is not guarded.\<close>

definition ensure_output_dir :: "'img world \<Rightarrow> string \<Rightarrow> pyexn option \<times> 'img syscall list" where
  "ensure_output_dir w output_dir =
     (if \<not> os_path_exists w output_dir
      then (os_makedirs w output_dir, [Sys_exists output_dir, Sys_makedirs output_dir])
      else (None, [Sys_exists output_dir]))"

text \<open>The write test: write the marker file, remove it; any exception becomes a
  \<open>PermissionError\<close>.\<close>

definition test_file :: "string \<Rightarrow> string" where
  "test_file output_dir = os_path_join output_dir ''.write_test''"

definition write_test :: "'img world \<Rightarrow> string \<Rightarrow> pyexn option \<times> 'img syscall list" where
  "write_test w output_dir =
     (case write_file w (test_file output_dir) ''test'' of
        Some perm_err \<Rightarrow>
          (Some (PyExn PermissionError (''Cannot write to output directory: '' @ str_exn perm_err)),
           [Sys_write (test_file output_dir) ''test''])
      | None \<Rightarrow>
          (case os_remove w (test_file output_dir) of
             Some perm_err \<Rightarrow>
               (Some (PyExn PermissionError
                        (''Cannot write to output directory: '' @ str_exn perm_err)),
                [Sys_write (test_file output_dir) ''test'', Sys_remove (test_file output_dir)])
           | None \<Rightarrow>
               (None,
                [Sys_write (test_file output_dir) ''test'', Sys_remove (test_file output_dir)])))"

definition extract_frames_from_image ::
  "'img world \<Rightarrow> string \<Rightarrow> string \<Rightarrow> (pyexn + string list) \<times> 'img syscall list" where
  "extract_frames_from_image w image_path output_dir =
     (if \<not> os_path_exists w image_path then
        (Inl (PyExn FileNotFoundError (''Image file not found: '' @ image_path)),
         [Sys_exists image_path])
      else
        (case os_path_getsize w image_path of
           Inl e \<Rightarrow> (Inl e, [Sys_exists image_path, Sys_getsize image_path])
         | Inr file_size \<Rightarrow>
             if file_size = 0 then
               (Inl (PyExn ValueError (''Image file is empty: '' @ image_path)),
                [Sys_exists image_path, Sys_getsize image_path])
             else
               (case ensure_output_dir w output_dir of
                  (Some e, made) \<Rightarrow>
                    (Inl e, [Sys_exists image_path, Sys_getsize image_path] @ made)
                | (None, made) \<Rightarrow>
                    (case write_test w output_dir of
                       (Some perm_err, probe) \<Rightarrow>
                         (Inl perm_err,
                          [Sys_exists image_path, Sys_getsize image_path] @ made @ probe)
                     | (None, probe) \<Rightarrow>
                         (case read_frames w image_path output_dir of
                            (r, calls) \<Rightarrow>
                              (r, [Sys_exists image_path, Sys_getsize image_path]
                                    @ made @ probe @ calls))))))"

section \<open>Notions used to state the properties\<close>

text \<open>
  The text the batch records for the outcome of a per-frame call, the record it appends
  for the frame at a position, and the class "success" of the tally.
\<close>

definition recorded_text :: "pyexn + string \<Rightarrow> string" where
  "recorded_text r = (case r of Inr t \<Rightarrow> t | Inl e \<Rightarrow> generic_error_text)"

definition real_record ::
  "(nat \<Rightarrow> string \<Rightarrow> pyexn + string) \<Rightarrow> nat \<times> string \<Rightarrow> recognition_record" where
  "real_record recognize ip =
     \<lparr>frame_number = fst ip + 1, frame_path = snd ip,
      text_of = recorded_text (recognize (fst ip) (snd ip))\<rparr>"

definition is_success :: "string \<Rightarrow> bool" where
  "is_success t = (\<not> startswith t ''Error:'' \<and> t \<noteq> [] \<and> t \<noteq> no_text_detected)"

text \<open>
  The states of the file system the extractor's checks distinguish: a source that exists
  with a positive size, an output directory that exists or can be created, and a
  marker file that can be written and removed.
\<close>

definition source_ok :: "'img world \<Rightarrow> string \<Rightarrow> bool" where
  "source_ok w image_path =
     (os_path_exists w image_path \<and>
      (case os_path_getsize w image_path of Inr n \<Rightarrow> 0 < n | Inl e \<Rightarrow> False))"

definition dir_ready :: "'img world \<Rightarrow> string \<Rightarrow> bool" where
  "dir_ready w output_dir = (os_path_exists w output_dir \<or> os_makedirs w output_dir = None)"

definition probe_ok :: "'img world \<Rightarrow> string \<Rightarrow> bool" where
  "probe_ok w output_dir =
     (write_file w (test_file output_dir) ''test'' = None \<and> os_remove w (test_file output_dir) = None)"

section \<open>Sample inputs\<close>

text \<open>Per-frame calls that answer with fixed texts, and one that raises.\<close>

definition sample_paths :: "string list" where
  "sample_paths = [''f0.jpg'', ''f1.jpg'', ''f2.jpg'']"

definition sample_texts :: "string list" where
  "sample_texts = [''AB'', ''C123 extra'', ''nothing'']"

definition texts_recognize :: "nat \<Rightarrow> string \<Rightarrow> pyexn + string" where
  "texts_recognize idx path = Inr (sample_texts ! idx)"

definition mixed_recognize :: "nat \<Rightarrow> string \<Rightarrow> pyexn + string" where
  "mixed_recognize idx path =
     (if idx = 0 then Inr ''No text detected''
      else if idx = 1 then Inl (PyExn OtherException ''boom'')
      else Inr ''Error: Frame file not found'')"

definition third_empty_recognize :: "nat \<Rightarrow> string \<Rightarrow> pyexn + string" where
  "third_empty_recognize idx path = Inr ([''AB'', ''C123 extra'', ''No text detected''] ! idx)"




text \<open>
  Decoded images as terms: the file and frame they come from, and the operations applied
  to them, innermost first. In the sample world every call succeeds; the engine
  answers the empty string on the raw frame and \<open>ab\<close> on the enhanced frame and under
  the sparse-text configuration. The other worlds differ from it in one answer.
\<close>

datatype picture =
    Decoded string nat
  | Converted string picture
  | Enhanced enhancer real picture
  | Blurred real picture

fun picture_mode :: "picture \<Rightarrow> string" where
  "picture_mode (Decoded p i) = ''P''"
| "picture_mode (Converted m img) = m"
| "picture_mode (Enhanced k f img) = picture_mode img"
| "picture_mode (Blurred r img) = picture_mode img"

fun picture_frame :: "picture \<Rightarrow> nat \<Rightarrow> picture" where
  "picture_frame (Decoded p j) i = Decoded p i"
| "picture_frame img i = img"

definition tie_engine :: "picture \<Rightarrow> string \<Rightarrow> pyexn + string" where
  "tie_engine img config =
     (if config = sparse_config then Inr ''ab''
      else (case img of Decoded p i \<Rightarrow> Inr [] | _ \<Rightarrow> Inr ''ab''))"

definition blank_engine :: "picture \<Rightarrow> string \<Rightarrow> pyexn + string" where
  "blank_engine img config =
     (if config = sparse_config then Inr []
      else (case img of Decoded p i \<Rightarrow> Inr ''  '' | _ \<Rightarrow> Inr [CHR 0x0A, CHR 0x09]))"

definition sound_world :: "picture world" where
  "sound_world =
     \<lparr>subprocess_run = (\<lambda>cmd. Inr \<lparr>returncode = 0, stdout = ''tesseract 5.3.0'', stderr = []\<rparr>),
      os_path_exists = (\<lambda>p. True),
      os_path_getsize = (\<lambda>p. Inr 2048),
      os_makedirs = (\<lambda>p. None),
      write_file = (\<lambda>p content. None),
      os_remove = (\<lambda>p. None),
      uuid4_hex = (\<lambda>i. ''c0ffee''),
      image_open = (\<lambda>p. Inr (Decoded p 0)),
      n_frames = (\<lambda>img. Inr 2),
      img_seek = (\<lambda>img i. None),
      img_copy = (\<lambda>img i. Inr (picture_frame img i)),
      img_mode = picture_mode,
      img_convert = (\<lambda>m img. Inr (Converted m img)),
      img_enhance = (\<lambda>k f img. Inr (Enhanced k f img)),
      img_blur = (\<lambda>r img. Inr (Blurred r img)),
      img_save = (\<lambda>img p. None),
      image_to_string = tie_engine\<rparr>"

definition blank_world :: "picture world" where
  "blank_world = sound_world\<lparr>image_to_string := blank_engine\<rparr>"

definition no_engine_world :: "picture world" where
  "no_engine_world =
     sound_world\<lparr>subprocess_run := (\<lambda>cmd. Inl (PyExn TimeoutExpired ''timed out after 5 seconds''))\<rparr>"

definition missing_file_world :: "picture world" where
  "missing_file_world = sound_world\<lparr>os_path_exists := (\<lambda>p. False)\<rparr>"

definition empty_file_world :: "picture world" where
  "empty_file_world = sound_world\<lparr>os_path_getsize := (\<lambda>p. Inr 0)\<rparr>"

text \<open>Worlds in which one step of the extractor fails or the output directory is missing.\<close>

definition readonly_world :: "picture world" where
  "readonly_world =
     sound_world\<lparr>write_file := (\<lambda>p content. Some (PyExn PermissionError ''[Errno 13] Permission denied''))\<rparr>"

definition unreadable_world :: "picture world" where
  "unreadable_world =
     sound_world\<lparr>image_open := (\<lambda>p. Inl (PyExn OSError ''cannot identify image file''))\<rparr>"

definition unsaved_world :: "picture world" where
  "unsaved_world = sound_world\<lparr>img_save := (\<lambda>img p. Some (PyExn OSError ''disk full''))\<rparr>"

definition fresh_dir_world :: "picture world" where
  "fresh_dir_world = sound_world\<lparr>os_path_exists := (\<lambda>p. p \<noteq> ''out'')\<rparr>"

definition pass_fails_world :: "enhancer \<Rightarrow> picture world" where
  "pass_fails_world failing =
     sound_world\<lparr>img_enhance := (\<lambda>k f img. if k = failing
        then Inl (PyExn ValueError ''image has wrong mode'') else Inr (Enhanced k f img))\<rparr>"

definition uncreatable_world :: "picture world" where
  "uncreatable_world =
     sound_world\<lparr>os_path_exists := (\<lambda>p. p \<noteq> ''out''),
       os_makedirs := (\<lambda>p. Some (PyExn PermissionError ''[Errno 13] Permission denied: out''))\<rparr>"

definition locked_dir_world :: "picture world" where
  "locked_dir_world =
     sound_world\<lparr>os_path_exists := (\<lambda>p. p \<noteq> ''out''),
       write_file := (\<lambda>p content. Some (PyExn PermissionError ''[Errno 13] Permission denied''))\<rparr>"

section \<open>Properties of the batch\<close>

lemma generic_error_prefixed: "startswith generic_error_text ''Error:''"
  by (simp add: startswith_def generic_error_text_def)

lemma frame_step_results:
  "ocr_results (frame_step recognize s ip) = ocr_results s @ [real_record recognize ip]"
  by (cases ip)
     (simp add: frame_step_def real_record_def recorded_text_def Let_def split: sum.splits)

lemma frame_step_success:
  "success_count (frame_step recognize s ip) =
     success_count s + (if is_success (recorded_text (recognize (fst ip) (snd ip))) then 1 else 0)"
  by (cases ip)
     (auto simp add: frame_step_def recorded_text_def is_success_def Let_def
        generic_error_prefixed split: sum.splits)

lemma foldl_results:
  "ocr_results (foldl (frame_step recognize) s ips) =
     ocr_results s @ map (real_record recognize) ips"
  by (induction ips arbitrary: s) (simp_all add: frame_step_results)

lemma foldl_success:
  "success_count (foldl (frame_step recognize) s ips) =
     success_count s + length (filter is_success (map text_of (map (real_record recognize) ips)))"
  by (induction ips arbitrary: s) (simp_all add: frame_step_success real_record_def)

lemma process_frames_results:
  "ocr_results (process_frames recognize ps) = map (real_record recognize) (enumerate 0 ps)"
  by (simp add: process_frames_def foldl_results initial_state_def)

lemma process_frames_success:
  "success_count (process_frames recognize ps) =
     length (filter is_success (map text_of (ocr_results (process_frames recognize ps))))"
  by (simp add: process_frames_def foldl_success foldl_results initial_state_def)

lemma combined_analysis_shape:
  "combined_analysis ps rs = Inr rs \<or>
   (\<exists>word. 4 \<le> length word \<and> combined_analysis ps rs =
      Inr (rs @ [\<lparr>frame_number = length ps + 1, frame_path = ''combined_analysis'',
                  text_of = ''Combined analysis: Found text pattern '' @ quote @ word @ quote\<rparr>]))"
  by (auto simp add: combined_analysis_def Let_def max_by_len_def split: list.splits)

lemma aggregate_shape:
  "aggregate ps s = ocr_results s \<or>
   (\<exists>word. 4 \<le> length word \<and> aggregate ps s =
      ocr_results s @ [\<lparr>frame_number = length ps + 1, frame_path = ''combined_analysis'',
                  text_of = ''Combined analysis: Found text pattern '' @ quote @ word @ quote\<rparr>])"
  using combined_analysis_shape [of ps "ocr_results s"]
  by (auto simp add: aggregate_def)

lemma map_frame_number:
  "map frame_number (map (real_record recognize) (enumerate n ps)) = [n + 1..<n + 1 + length ps]"
  by (induction ps arbitrary: n) (simp_all add: real_record_def upt_rec)

lemma map_frame_path: "map frame_path (map (real_record recognize) (enumerate n ps)) = ps"
  by (induction ps arbitrary: n) (simp_all add: real_record_def)

text \<open>
  What every run of the batch returns: the records of the frames, one per path and in
  order, then at most one record of the cross-frame analysis.
\<close>

lemma batch_shape:
  "\<exists>rs. perform_ocr_on_frames_with recognize ps = Inr rs
     \<and> map frame_number (take (length ps) rs) = [1..<length ps + 1]
     \<and> map frame_path (take (length ps) rs) = ps
     \<and> (\<forall>i<length ps. text_of (rs ! i) =
           (case recognize i (ps ! i) of
              Inr t \<Rightarrow> t
            | Inl e \<Rightarrow> ''Error: OCR processing failed. Please try a different image.''))
     \<and> (length rs = length ps \<or>
          (length rs = length ps + 1 \<and> frame_path (last rs) = ''combined_analysis''
             \<and> frame_number (last rs) = length ps + 1))"
proof (cases "ps = []")
  case True
  then show ?thesis
    by (simp add: perform_ocr_on_frames_with_def frames_body_def)
next
  case False
  let ?real = "map (real_record recognize) (enumerate 0 ps)"
  let ?rs = "aggregate ps (process_frames recognize ps)"
  have run: "perform_ocr_on_frames_with recognize ps = Inr ?rs"
    using False by (simp add: perform_ocr_on_frames_with_def frames_body_def)
  have len: "length ?real = length ps" by simp
  have shape: "?rs = ?real \<or>
      (\<exists>word. ?rs = ?real @ [\<lparr>frame_number = length ps + 1, frame_path = ''combined_analysis'',
                  text_of = ''Combined analysis: Found text pattern '' @ quote @ word @ quote\<rparr>])"
    using aggregate_shape [of ps "process_frames recognize ps"]
    by (auto simp add: process_frames_results)
  then have tk: "take (length ps) ?rs = ?real"
    using len by auto
  have nums: "map frame_number (take (length ps) ?rs) = [1..<length ps + 1]"
    using map_frame_number [of recognize 0 ps] by (simp add: tk)
  have paths: "map frame_path (take (length ps) ?rs) = ps"
    using map_frame_path [of recognize 0 ps] by (simp add: tk)
  have texts: "\<forall>i<length ps. text_of (?rs ! i) =
           (case recognize i (ps ! i) of
              Inr t \<Rightarrow> t
            | Inl e \<Rightarrow> ''Error: OCR processing failed. Please try a different image.'')"
  proof (intro allI impI)
    fix i assume i: "i < length ps"
    have "?rs ! i = take (length ps) ?rs ! i" using i by simp
    also have "\<dots> = real_record recognize (i, ps ! i)"
      using i by (simp add: tk nth_enumerate_eq)
    finally show "text_of (?rs ! i) =
           (case recognize i (ps ! i) of
              Inr t \<Rightarrow> t
            | Inl e \<Rightarrow> ''Error: OCR processing failed. Please try a different image.'')"
      by (simp add: real_record_def recorded_text_def generic_error_text_def split: sum.splits)
  qed
  have tail: "length ?rs = length ps \<or>
          (length ?rs = length ps + 1 \<and> frame_path (last ?rs) = ''combined_analysis''
             \<and> frame_number (last ?rs) = length ps + 1)"
    using shape len by auto
  show ?thesis
    using run nums paths texts tail by blast
qed

lemma mixed_run:
  "perform_ocr_on_frames_with mixed_recognize sample_paths =
   Inr [\<lparr>frame_number = 1, frame_path = ''f0.jpg'', text_of = ''No text detected''\<rparr>,
        \<lparr>frame_number = 2, frame_path = ''f1.jpg'',
         text_of = ''Error: OCR processing failed. Please try a different image.''\<rparr>,
        \<lparr>frame_number = 3, frame_path = ''f2.jpg'', text_of = ''Error: Frame file not found''\<rparr>]"
  by code_simp

text \<open>
  Claim C1. For every list of frame paths, the empty list included, and whatever each
  per-frame call does (a text, the sentinel of an empty frame, an error text, or an
  exception), the batch returns a list whose first \<open>len(paths)\<close> records are the records
  of the frames: their frame numbers are \<open>1..len(paths)\<close>, their paths are the input
  paths in input order, the text of a frame whose call returned is the text returned,
  and the text of a frame whose call raised is the generic error text. After them
  comes nothing, or the one record of the cross-frame analysis. The same holds with
  \<open>perform_ocr_on_frame\<close> as the per-frame call, in every world.
\<close>

theorem batch_one_record_per_path:
  "(\<exists>rs. perform_ocr_on_frames_with recognize ps = Inr rs
     \<and> map frame_number (take (length ps) rs) = [1..<length ps + 1]
     \<and> map frame_path (take (length ps) rs) = ps
     \<and> (\<forall>i<length ps. text_of (rs ! i) =
           (case recognize i (ps ! i) of
              Inr t \<Rightarrow> t
            | Inl e \<Rightarrow> ''Error: OCR processing failed. Please try a different image.''))
     \<and> (length rs = length ps \<or>
          (length rs = length ps + 1 \<and> frame_path (last rs) = ''combined_analysis''
             \<and> frame_number (last rs) = length ps + 1)))
   \<and> (\<exists>rs. perform_ocr_on_frames ws ps = Inr rs
     \<and> map frame_number (take (length ps) rs) = [1..<length ps + 1]
     \<and> map frame_path (take (length ps) rs) = ps
     \<and> (length rs = length ps \<or>
          (length rs = length ps + 1 \<and> frame_path (last rs) = ''combined_analysis''
             \<and> frame_number (last rs) = length ps + 1)))"
proof
  show "\<exists>rs. perform_ocr_on_frames_with recognize ps = Inr rs
     \<and> map frame_number (take (length ps) rs) = [1..<length ps + 1]
     \<and> map frame_path (take (length ps) rs) = ps
     \<and> (\<forall>i<length ps. text_of (rs ! i) =
           (case recognize i (ps ! i) of
              Inr t \<Rightarrow> t
            | Inl e \<Rightarrow> ''Error: OCR processing failed. Please try a different image.''))
     \<and> (length rs = length ps \<or>
          (length rs = length ps + 1 \<and> frame_path (last rs) = ''combined_analysis''
             \<and> frame_number (last rs) = length ps + 1))"
    by (rule batch_shape)
  show "\<exists>rs. perform_ocr_on_frames ws ps = Inr rs
     \<and> map frame_number (take (length ps) rs) = [1..<length ps + 1]
     \<and> map frame_path (take (length ps) rs) = ps
     \<and> (length rs = length ps \<or>
          (length rs = length ps + 1 \<and> frame_path (last rs) = ''combined_analysis''
             \<and> frame_number (last rs) = length ps + 1))"
    using batch_shape [of "\<lambda>idx path. fst (perform_ocr_on_frame (ws idx) path)" ps]
    unfolding perform_ocr_on_frames_def by blast
qed

theorem batch_one_record_per_path_witness:
  "\<exists>rs. perform_ocr_on_frames_with mixed_recognize sample_paths = Inr rs
     \<and> map frame_number (take 3 rs) = [1, 2, 3]
     \<and> map frame_path (take 3 rs) = [''f0.jpg'', ''f1.jpg'', ''f2.jpg'']
     \<and> text_of (rs ! 1) = ''Error: OCR processing failed. Please try a different image.''"
proof -
  obtain rs where rs: "perform_ocr_on_frames_with mixed_recognize sample_paths = Inr rs"
    and nums: "map frame_number (take (length sample_paths) rs) = [1..<length sample_paths + 1]"
    and paths: "map frame_path (take (length sample_paths) rs) = sample_paths"
    and texts: "\<forall>i<length sample_paths. text_of (rs ! i) =
           (case mixed_recognize i (sample_paths ! i) of
              Inr t \<Rightarrow> t
            | Inl e \<Rightarrow> ''Error: OCR processing failed. Please try a different image.'')"
    using batch_one_record_per_path [of mixed_recognize sample_paths] by blast
  have three: "length sample_paths = 3" by (simp add: sample_paths_def)
  have err: "text_of (rs ! 1) = ''Error: OCR processing failed. Please try a different image.''"
    using texts three by (simp add: mixed_recognize_def)
  have all: "rs = [\<lparr>frame_number = 1, frame_path = ''f0.jpg'', text_of = ''No text detected''\<rparr>,
        \<lparr>frame_number = 2, frame_path = ''f1.jpg'',
         text_of = ''Error: OCR processing failed. Please try a different image.''\<rparr>,
        \<lparr>frame_number = 3, frame_path = ''f2.jpg'', text_of = ''Error: Frame file not found''\<rparr>]"
    using rs by (simp add: mixed_run)
  have n3: "map frame_number (take 3 rs) = [1, 2, 3]"
    by (simp add: all)
  have p3: "map frame_path (take 3 rs) = [''f0.jpg'', ''f1.jpg'', ''f2.jpg'']"
    by (simp add: all)
  show ?thesis
    by (intro exI [of _ rs] conjI rs n3 p3 err)
qed

text \<open>
  Claim C7. When the text of every record of a frame is \<open>"No text detected"\<close> or starts
  with \<open>"Error:"\<close>, the batch returns exactly the records of the frames, one per path:
  no record of the cross-frame analysis is appended.
\<close>

theorem no_success_no_synthetic_record:
  assumes "\<forall>r \<in> set (ocr_results (process_frames recognize ps)).
             text_of r = ''No text detected'' \<or> startswith (text_of r) ''Error:''"
  shows "perform_ocr_on_frames_with recognize ps = Inr (ocr_results (process_frames recognize ps))
         \<and> length (ocr_results (process_frames recognize ps)) = length ps
         \<and> map frame_path (ocr_results (process_frames recognize ps)) = ps"
proof -
  have "filter is_success (map text_of (ocr_results (process_frames recognize ps))) = []"
    using assms by (auto simp add: filter_empty_conv is_success_def no_text_detected_def)
  then have "success_count (process_frames recognize ps) = 0"
    by (simp add: process_frames_success)
  then have "aggregate ps (process_frames recognize ps) = ocr_results (process_frames recognize ps)"
    by (simp add: aggregate_def)
  moreover have "ps = [] \<Longrightarrow> ocr_results (process_frames recognize ps) = []"
    by (simp add: process_frames_results)
  moreover have "map frame_path (ocr_results (process_frames recognize ps)) = ps"
    using map_frame_path [of recognize 0 ps] by (simp add: process_frames_results)
  ultimately show ?thesis
    by (simp add: perform_ocr_on_frames_with_def frames_body_def process_frames_results)
qed

lemma mixed_records:
  "ocr_results (process_frames mixed_recognize sample_paths) =
     [\<lparr>frame_number = 1, frame_path = ''f0.jpg'', text_of = ''No text detected''\<rparr>,
      \<lparr>frame_number = 2, frame_path = ''f1.jpg'',
       text_of = ''Error: OCR processing failed. Please try a different image.''\<rparr>,
      \<lparr>frame_number = 3, frame_path = ''f2.jpg'', text_of = ''Error: Frame file not found''\<rparr>]"
  by code_simp

theorem no_success_no_synthetic_record_witness:
  "perform_ocr_on_frames_with mixed_recognize sample_paths =
     Inr [\<lparr>frame_number = 1, frame_path = ''f0.jpg'', text_of = ''No text detected''\<rparr>,
          \<lparr>frame_number = 2, frame_path = ''f1.jpg'',
           text_of = ''Error: OCR processing failed. Please try a different image.''\<rparr>,
          \<lparr>frame_number = 3, frame_path = ''f2.jpg'', text_of = ''Error: Frame file not found''\<rparr>]
   \<and> length (ocr_results (process_frames mixed_recognize sample_paths)) = length sample_paths"
proof -
  have "\<forall>r \<in> set (ocr_results (process_frames mixed_recognize sample_paths)).
          text_of r = ''No text detected'' \<or> startswith (text_of r) ''Error:''"
    by (simp add: mixed_records startswith_def)
  from no_success_no_synthetic_record [OF this] show ?thesis
    by (simp add: mixed_records)
qed

text \<open>
  Claim C3, as the spec states it: for the texts \<open>AB\<close>, \<open>C123 extra\<close>, \<open>nothing\<close> the
  record of the analysis names the pattern \<open>C123\<close>. The batch does not return that list.
\<close>

theorem aggregation_sample_counterexample:
  "perform_ocr_on_frames_with texts_recognize sample_paths \<noteq>
     Inr [\<lparr>frame_number = 1, frame_path = ''f0.jpg'', text_of = ''AB''\<rparr>,
          \<lparr>frame_number = 2, frame_path = ''f1.jpg'', text_of = ''C123 extra''\<rparr>,
          \<lparr>frame_number = 3, frame_path = ''f2.jpg'', text_of = ''nothing''\<rparr>,
          \<lparr>frame_number = 4, frame_path = ''combined_analysis'',
           text_of = ''Combined analysis: Found text pattern '' @ quote @ ''C123'' @ quote\<rparr>]"
  by code_simp

text \<open>
  Claim C3, amended. All three texts are successes, so the combined text is
  \<open>AB C123 extra nothing\<close>; its runs of three or more letters and digits are \<open>C123\<close>,
  \<open>extra\<close> and \<open>nothing\<close>, and the longest is \<open>nothing\<close>. The batch appends exactly one
  record after the three records of the frames, with frame number \<open>len(paths) + 1 = 4\<close>,
  path \<open>combined_analysis\<close> and the text naming \<open>nothing\<close>. When the third frame has no
  text, the combined text is \<open>AB C123 extra\<close> and the pattern named is \<open>extra\<close>.
\<close>

theorem aggregation_sample:
  "join '' '' sample_texts = ''AB C123 extra nothing''
   \<and> findall ''AB C123 extra nothing'' = [''C123'', ''extra'', ''nothing'']
   \<and> max_by_len [''C123'', ''extra'', ''nothing''] = Inr ''nothing''
   \<and> perform_ocr_on_frames_with texts_recognize sample_paths =
     Inr [\<lparr>frame_number = 1, frame_path = ''f0.jpg'', text_of = ''AB''\<rparr>,
          \<lparr>frame_number = 2, frame_path = ''f1.jpg'', text_of = ''C123 extra''\<rparr>,
          \<lparr>frame_number = 3, frame_path = ''f2.jpg'', text_of = ''nothing''\<rparr>,
          \<lparr>frame_number = length sample_paths + 1, frame_path = ''combined_analysis'',
           text_of = ''Combined analysis: Found text pattern '' @ quote @ ''nothing'' @ quote\<rparr>]
   \<and> perform_ocr_on_frames_with third_empty_recognize sample_paths =
     Inr [\<lparr>frame_number = 1, frame_path = ''f0.jpg'', text_of = ''AB''\<rparr>,
          \<lparr>frame_number = 2, frame_path = ''f1.jpg'', text_of = ''C123 extra''\<rparr>,
          \<lparr>frame_number = 3, frame_path = ''f2.jpg'', text_of = ''No text detected''\<rparr>,
          \<lparr>frame_number = length sample_paths + 1, frame_path = ''combined_analysis'',
           text_of = ''Combined analysis: Found text pattern '' @ quote @ ''extra'' @ quote\<rparr>]"
proof (intro conjI)
  show "join '' '' sample_texts = ''AB C123 extra nothing''"
    by (simp add: sample_texts_def)
  show "findall ''AB C123 extra nothing'' = [''C123'', ''extra'', ''nothing'']"
    by code_simp
  show "max_by_len [''C123'', ''extra'', ''nothing''] = Inr ''nothing''"
    by (simp add: max_by_len_def)
  show "perform_ocr_on_frames_with texts_recognize sample_paths =
     Inr [\<lparr>frame_number = 1, frame_path = ''f0.jpg'', text_of = ''AB''\<rparr>,
          \<lparr>frame_number = 2, frame_path = ''f1.jpg'', text_of = ''C123 extra''\<rparr>,
          \<lparr>frame_number = 3, frame_path = ''f2.jpg'', text_of = ''nothing''\<rparr>,
          \<lparr>frame_number = length sample_paths + 1, frame_path = ''combined_analysis'',
           text_of = ''Combined analysis: Found text pattern '' @ quote @ ''nothing'' @ quote\<rparr>]"
    by code_simp
  show "perform_ocr_on_frames_with third_empty_recognize sample_paths =
     Inr [\<lparr>frame_number = 1, frame_path = ''f0.jpg'', text_of = ''AB''\<rparr>,
          \<lparr>frame_number = 2, frame_path = ''f1.jpg'', text_of = ''C123 extra''\<rparr>,
          \<lparr>frame_number = 3, frame_path = ''f2.jpg'', text_of = ''No text detected''\<rparr>,
          \<lparr>frame_number = length sample_paths + 1, frame_path = ''combined_analysis'',
           text_of = ''Combined analysis: Found text pattern '' @ quote @ ''extra'' @ quote\<rparr>]"
    by code_simp
qed











section \<open>Properties of the recognition of one frame\<close>

lemma max_scan_first_longest:
  "\<exists>pre post. b # xs = pre @ max_scan b xs # post
      \<and> (\<forall>y\<in>set pre. length y < length (max_scan b xs))
      \<and> (\<forall>y\<in>set post. length y \<le> length (max_scan b xs))"
proof (induction xs arbitrary: b)
  case Nil
  have "[b] = [] @ max_scan b [] # []" by simp
  then show ?case by fastforce
next
  case (Cons x xs)
  show ?case
  proof (cases "length b < length x")
    case True
    then have eq: "max_scan b (x # xs) = max_scan x xs" by simp
    obtain pre post where split: "x # xs = pre @ max_scan x xs # post"
      and before: "\<forall>y\<in>set pre. length y < length (max_scan x xs)"
      and after: "\<forall>y\<in>set post. length y \<le> length (max_scan x xs)"
      using Cons.IH [of x] by blast
    have "x \<in> set (pre @ max_scan x xs # post)"
      using split by (metis list.set_intros(1))
    then have "length x \<le> length (max_scan x xs)"
      using before after by auto
    then have "\<forall>y\<in>set (b # pre). length y < length (max_scan x xs)"
      using True before by auto
    moreover have "b # x # xs = (b # pre) @ max_scan x xs # post"
      using split by simp
    ultimately show ?thesis
      unfolding eq using after by blast
  next
    case False
    then have eq: "max_scan b (x # xs) = max_scan b xs" by simp
    obtain pre post where split: "b # xs = pre @ max_scan b xs # post"
      and before: "\<forall>y\<in>set pre. length y < length (max_scan b xs)"
      and after: "\<forall>y\<in>set post. length y \<le> length (max_scan b xs)"
      using Cons.IH [of b] by blast
    show ?thesis
    proof (cases pre)
      case Nil
      have "b # xs = max_scan b xs # post"
        using split Nil by (metis append_Nil)
      then have b: "max_scan b xs = b" and post: "post = xs"
        by (metis list.inject)+
      have "b # x # xs = [] @ max_scan b xs # (x # xs)"
        using b by simp
      moreover have "\<forall>y\<in>set (x # xs). length y \<le> length (max_scan b xs)"
        using after post b False by auto
      moreover have "\<forall>y\<in>set ([] :: 'a list list). length y < length (max_scan b xs)"
        by simp
      ultimately show ?thesis
        unfolding eq by blast
    next
      case (Cons p pre')
      have "b # xs = p # (pre' @ max_scan b xs # post)"
        using split Cons by (metis append_Cons)
      then have p: "p = b" and rest: "xs = pre' @ max_scan b xs # post"
        by (metis list.inject)+
      have "length b < length (max_scan b xs)"
        using before Cons p by simp
      then have "\<forall>y\<in>set (b # x # pre'). length y < length (max_scan b xs)"
        using before Cons False by auto
      moreover have "b # x # xs = (b # x # pre') @ max_scan b xs # post"
        using rest by simp
      ultimately show ?thesis
        unfolding eq using after by blast
    qed
  qed
qed

lemma max_scan_mem: "max_scan b xs \<in> set (b # xs)"
  by (induction xs arbitrary: b) auto

lemma attempt_mem:
  assumes "t \<in> set (attempt w im config)"
  shows "t \<noteq> [] \<and> (\<exists>raw. image_to_string w im config = Inr raw \<and> t = strip raw)"
  using assms
  by (cases "image_to_string w im config") (auto simp add: attempt_def split: if_splits)

lemma recognition_results_mem:
  assumes "t \<in> set (recognition_results w img)"
  shows "t \<noteq> [] \<and> (\<exists>im config raw. image_to_string w im config = Inr raw \<and> t = strip raw)"
proof -
  from assms consider "t \<in> set (attempt w img [])"
    | "t \<in> set (attempt w (enhance_image_for_ocr w img) [])"
    | "t \<in> set (attempt w img sparse_config)"
    by (auto simp add: recognition_results_def)
  then show ?thesis
  proof cases
    case 1
    then show ?thesis using attempt_mem [of t w img "[]"] by blast
  next
    case 2
    then show ?thesis using attempt_mem [of t w "enhance_image_for_ocr w img" "[]"] by blast
  next
    case 3
    then show ?thesis using attempt_mem [of t w img sparse_config] by blast
  qed
qed

lemma check_tesseract_total: "\<exists>b. fst (check_tesseract w) = Inr b"
  by (auto simp add: check_tesseract_def split: sum.splits)

lemma check_tesseract_calls:
  "set (snd (check_tesseract w)) \<subseteq> {Sys_run version_cmd, Sys_run list_langs_cmd}"
  by (auto simp add: check_tesseract_def split: sum.splits if_splits)

lemma results_of_three:
  assumes "image_to_string w img [] = Inr t1"
    and "image_to_string w (enhance_image_for_ocr w img) [] = Inr t2"
    and "image_to_string w img sparse_config = Inr t3"
  shows "recognition_results w img = filter (\<lambda>c. c \<noteq> []) (map strip [t1, t2, t3])"
  using assms by (simp add: recognition_results_def attempt_def)

lemma perform_ocr_on_frame_open:
  assumes "fst (check_tesseract w) = Inr True"
    and "os_path_exists w p" and "os_path_getsize w p = Inr n" and "0 < n"
    and "image_open w p = Inr img"
  shows "fst (perform_ocr_on_frame w p) =
     (case recognition_results w img of
        [] \<Rightarrow> Inr ''No text detected''
      | c # cs \<Rightarrow> Inr (max_scan c cs))"
  using assms
  by (cases "check_tesseract w")
     (simp add: perform_ocr_on_frame_def frame_body_def recognize_image_def Let_def
        max_by_len_def no_text_detected_def split: list.splits prod.splits sum.splits)

text \<open>
  Claim C2. For a frame that passes the checks and opens, and whose three attempts
  return strings: with the candidates being the stripped, non-empty results in the order
  of the attempts, \<open>perform_ocr_on_frame\<close> returns \<open>"No text detected"\<close> when there is no
  candidate; otherwise it returns a candidate that is strictly longer than every
  candidate before it and at least as long as every candidate after it (the longest,
  the earliest among equals). For the results \<open>""\<close>, \<open>"ab"\<close>, \<open>"ab"\<close> it returns the
  value of the second attempt.
\<close>

theorem longest_attempt_wins:
  assumes "fst (check_tesseract w) = Inr True"
    and "os_path_exists w p" and "os_path_getsize w p = Inr n" and "0 < n"
    and "image_open w p = Inr img"
    and "image_to_string w img [] = Inr t1"
    and "image_to_string w (enhance_image_for_ocr w img) [] = Inr t2"
    and "image_to_string w img sparse_config = Inr t3"
  shows "(filter (\<lambda>c. c \<noteq> []) (map strip [t1, t2, t3]) = [] \<longrightarrow>
            fst (perform_ocr_on_frame w p) = Inr ''No text detected'')
       \<and> (filter (\<lambda>c. c \<noteq> []) (map strip [t1, t2, t3]) \<noteq> [] \<longrightarrow>
            (\<exists>pre best post. fst (perform_ocr_on_frame w p) = Inr best
               \<and> filter (\<lambda>c. c \<noteq> []) (map strip [t1, t2, t3]) = pre @ best # post
               \<and> (\<forall>c\<in>set pre. length c < length best)
               \<and> (\<forall>c\<in>set post. length c \<le> length best)))
       \<and> (t1 = [] \<and> t2 = ''ab'' \<and> t3 = ''ab'' \<longrightarrow>
            fst (perform_ocr_on_frame w p) = Inr (strip t2))"
proof -
  let ?cands = "filter (\<lambda>c. c \<noteq> []) (map strip [t1, t2, t3])"
  have res: "recognition_results w img = ?cands"
    using assms(6-8) by (rule results_of_three)
  have run: "fst (perform_ocr_on_frame w p) =
     (case ?cands of [] \<Rightarrow> Inr ''No text detected'' | c # cs \<Rightarrow> Inr (max_scan c cs))"
    using perform_ocr_on_frame_open [OF assms(1-5)] unfolding res .
  have empty: "?cands = [] \<longrightarrow> fst (perform_ocr_on_frame w p) = Inr ''No text detected''"
    using run by simp
  have longest: "?cands \<noteq> [] \<longrightarrow>
            (\<exists>pre best post. fst (perform_ocr_on_frame w p) = Inr best
               \<and> ?cands = pre @ best # post
               \<and> (\<forall>c\<in>set pre. length c < length best)
               \<and> (\<forall>c\<in>set post. length c \<le> length best))"
  proof
    assume "?cands \<noteq> []"
    then obtain c cs where cs: "?cands = c # cs"
      by (cases ?cands) simp_all
    from max_scan_first_longest [of c cs]
    obtain pre post where "c # cs = pre @ max_scan c cs # post"
      and "\<forall>y\<in>set pre. length y < length (max_scan c cs)"
      and "\<forall>y\<in>set post. length y \<le> length (max_scan c cs)"
      by blast
    moreover have "fst (perform_ocr_on_frame w p) = Inr (max_scan c cs)"
      using run cs by simp
    ultimately show "\<exists>pre best post. fst (perform_ocr_on_frame w p) = Inr best
               \<and> ?cands = pre @ best # post
               \<and> (\<forall>c\<in>set pre. length c < length best)
               \<and> (\<forall>c\<in>set post. length c \<le> length best)"
      unfolding cs by blast
  qed
  have tie: "t1 = [] \<and> t2 = ''ab'' \<and> t3 = ''ab'' \<longrightarrow>
            fst (perform_ocr_on_frame w p) = Inr (strip t2)"
  proof
    assume t: "t1 = [] \<and> t2 = ''ab'' \<and> t3 = ''ab''"
    have "strip ''ab'' = ''ab''" by (simp add: strip_def isspace_def)
    moreover have "strip [] = []" by (simp add: strip_def)
    ultimately have "?cands = [''ab'', ''ab'']" using t by simp
    then show "fst (perform_ocr_on_frame w p) = Inr (strip t2)"
      using run t \<open>strip ''ab'' = ''ab''\<close> by simp
  qed
  show ?thesis using empty longest tie by blast
qed

lemma sound_check: "fst (check_tesseract sound_world) = Inr True"
  by (simp add: check_tesseract_def sound_world_def)

lemma blank_check: "fst (check_tesseract blank_world) = Inr True"
  by (simp add: check_tesseract_def sound_world_def blank_world_def)

lemma sound_enhanced:
  "enhance_image_for_ocr sound_world (Decoded ''f0.jpg'' 0) =
     Blurred 0.5 (Enhanced Sharpness 2.0 (Enhanced Contrast 2.0
       (Converted ''L'' (Converted ''RGB'' (Decoded ''f0.jpg'' 0)))))"
  by (simp add: enhance_image_for_ocr_def sound_world_def)

lemma blank_enhanced:
  "enhance_image_for_ocr blank_world (Decoded ''f0.jpg'' 0) =
     Blurred 0.5 (Enhanced Sharpness 2.0 (Enhanced Contrast 2.0
       (Converted ''L'' (Converted ''RGB'' (Decoded ''f0.jpg'' 0)))))"
  by (simp add: enhance_image_for_ocr_def sound_world_def blank_world_def)

theorem longest_attempt_wins_witness:
  "fst (perform_ocr_on_frame sound_world ''f0.jpg'') = Inr ''ab''
   \<and> fst (perform_ocr_on_frame blank_world ''f0.jpg'') = Inr ''No text detected''"
proof
  have "image_to_string sound_world (Decoded ''f0.jpg'' 0) [] = Inr []"
    and "image_to_string sound_world (enhance_image_for_ocr sound_world (Decoded ''f0.jpg'' 0)) []
           = Inr ''ab''"
    and "image_to_string sound_world (Decoded ''f0.jpg'' 0) sparse_config = Inr ''ab''"
    unfolding sound_enhanced by (simp_all add: sound_world_def tie_engine_def sparse_config_def)
  from longest_attempt_wins [OF sound_check _ _ _ _ this, of "''f0.jpg''" 2048]
  have "[] = [] \<and> ''ab'' = ''ab'' \<and> ''ab'' = ''ab'' \<longrightarrow>
          fst (perform_ocr_on_frame sound_world ''f0.jpg'') = Inr (strip ''ab'')"
    by (simp add: sound_world_def)
  then show "fst (perform_ocr_on_frame sound_world ''f0.jpg'') = Inr ''ab''"
    by (simp add: strip_def isspace_def)
next
  have "image_to_string blank_world (Decoded ''f0.jpg'' 0) [] = Inr ''  ''"
    and "image_to_string blank_world (enhance_image_for_ocr blank_world (Decoded ''f0.jpg'' 0)) []
           = Inr [CHR 0x0A, CHR 0x09]"
    and "image_to_string blank_world (Decoded ''f0.jpg'' 0) sparse_config = Inr []"
    unfolding blank_enhanced
    by (simp_all add: blank_world_def sound_world_def blank_engine_def sparse_config_def)
  from longest_attempt_wins [OF blank_check _ _ _ _ this, of "''f0.jpg''" 2048]
  have "filter (\<lambda>c. c \<noteq> []) (map strip [''  '', [CHR 0x0A, CHR 0x09], []]) = [] \<longrightarrow>
          fst (perform_ocr_on_frame blank_world ''f0.jpg'') = Inr ''No text detected''"
    by (simp add: sound_world_def blank_world_def)
  moreover have "filter (\<lambda>c. c \<noteq> []) (map strip [''  '', [CHR 0x0A, CHR 0x09], []]) = []"
    by (simp add: strip_def isspace_def)
  ultimately show "fst (perform_ocr_on_frame blank_world ''f0.jpg'') = Inr ''No text detected''"
    by blast
qed

text \<open>
  Claim C6. When the engine check answers \<open>False\<close>, or the frame file does not exist, or
  its size is 0, \<open>perform_ocr_on_frame\<close> returns (it does not raise) a text that starts
  with \<open>"Error:"\<close>: the engine message, the missing-file message or the empty-file
  message, in that order of precedence. It has then neither opened the image nor
  called the engine's recognition.
\<close>

theorem precondition_failure_is_error_text:
  assumes "fst (check_tesseract w) = Inr False \<or> \<not> os_path_exists w p
             \<or> os_path_getsize w p = Inr 0"
  shows "\<exists>t. fst (perform_ocr_on_frame w p) = Inr t \<and> startswith t ''Error:''
           \<and> (fst (check_tesseract w) = Inr False \<longrightarrow> t = ''Error: Tesseract OCR is not available'')
           \<and> (fst (check_tesseract w) = Inr True \<and> \<not> os_path_exists w p \<longrightarrow>
                 t = ''Error: Frame file not found'')
           \<and> (fst (check_tesseract w) = Inr True \<and> os_path_exists w p
                 \<and> os_path_getsize w p = Inr 0 \<longrightarrow> t = ''Error: Frame file is empty'')
           \<and> (\<forall>img config. Sys_image_to_string img config \<notin> set (snd (perform_ocr_on_frame w p)))
           \<and> Sys_image_open p \<notin> set (snd (perform_ocr_on_frame w p))"
proof -
  obtain b probe where chk: "check_tesseract w = (Inr b, probe)"
    using check_tesseract_total [of w] by (cases "check_tesseract w") auto
  have probe: "set probe \<subseteq> {Sys_run version_cmd, Sys_run list_langs_cmd}"
    using check_tesseract_calls [of w] chk by simp
  show ?thesis
  proof (cases b)
    case False
    then have "perform_ocr_on_frame w p = (Inr ''Error: Tesseract OCR is not available'', probe)"
      using chk by (simp add: perform_ocr_on_frame_def)
    then show ?thesis
      using probe chk False by (auto simp add: startswith_def)
  next
    case True
    show ?thesis
    proof (cases "os_path_exists w p")
      case False
      then have "perform_ocr_on_frame w p = (Inr ''Error: Frame file not found'', probe @ [Sys_exists p])"
        using chk True by (simp add: perform_ocr_on_frame_def frame_body_def)
      then show ?thesis
        using probe chk True False by (auto simp add: startswith_def)
    next
      case ex: True
      then have size: "os_path_getsize w p = Inr 0"
        using assms chk True by simp
      then have "perform_ocr_on_frame w p =
          (Inr ''Error: Frame file is empty'', probe @ [Sys_exists p, Sys_getsize p])"
        using chk True ex by (simp add: perform_ocr_on_frame_def frame_body_def)
      then show ?thesis
        using probe chk True ex size by (auto simp add: startswith_def)
    qed
  qed
qed

theorem precondition_failure_is_error_text_witness:
  "fst (perform_ocr_on_frame no_engine_world ''f0.jpg'') = Inr ''Error: Tesseract OCR is not available''
   \<and> fst (perform_ocr_on_frame missing_file_world ''f0.jpg'') = Inr ''Error: Frame file not found''
   \<and> fst (perform_ocr_on_frame empty_file_world ''f0.jpg'') = Inr ''Error: Frame file is empty''
   \<and> snd (perform_ocr_on_frame empty_file_world ''f0.jpg'') =
         [Sys_run version_cmd, Sys_run list_langs_cmd, Sys_exists ''f0.jpg'', Sys_getsize ''f0.jpg'']"
proof (intro conjI)
  have chk: "fst (check_tesseract no_engine_world) = Inr False"
    by (simp add: check_tesseract_def no_engine_world_def sound_world_def)
  then have "fst (check_tesseract no_engine_world) = Inr False
      \<or> \<not> os_path_exists no_engine_world ''f0.jpg''
      \<or> os_path_getsize no_engine_world ''f0.jpg'' = Inr 0"
    by simp
  from precondition_failure_is_error_text [OF this] chk
  show "fst (perform_ocr_on_frame no_engine_world ''f0.jpg'') =
          Inr ''Error: Tesseract OCR is not available''"
    by auto
next
  have chk: "fst (check_tesseract missing_file_world) = Inr True"
    by (simp add: check_tesseract_def missing_file_world_def sound_world_def)
  have missing: "\<not> os_path_exists missing_file_world ''f0.jpg''"
    by (simp add: missing_file_world_def sound_world_def)
  then have "fst (check_tesseract missing_file_world) = Inr False
      \<or> \<not> os_path_exists missing_file_world ''f0.jpg''
      \<or> os_path_getsize missing_file_world ''f0.jpg'' = Inr 0"
    by simp
  from precondition_failure_is_error_text [OF this] chk missing
  show "fst (perform_ocr_on_frame missing_file_world ''f0.jpg'') = Inr ''Error: Frame file not found''"
    by auto
next
  have chk: "fst (check_tesseract empty_file_world) = Inr True"
    by (simp add: check_tesseract_def empty_file_world_def sound_world_def)
  have ex: "os_path_exists empty_file_world ''f0.jpg''"
    by (simp add: empty_file_world_def sound_world_def)
  have zero: "os_path_getsize empty_file_world ''f0.jpg'' = Inr 0"
    by (simp add: empty_file_world_def sound_world_def)
  then have "fst (check_tesseract empty_file_world) = Inr False
      \<or> \<not> os_path_exists empty_file_world ''f0.jpg''
      \<or> os_path_getsize empty_file_world ''f0.jpg'' = Inr 0"
    by simp
  from precondition_failure_is_error_text [OF this] chk ex zero
  show "fst (perform_ocr_on_frame empty_file_world ''f0.jpg'') = Inr ''Error: Frame file is empty''"
    by auto
next
  show "snd (perform_ocr_on_frame empty_file_world ''f0.jpg'') =
         [Sys_run version_cmd, Sys_run list_langs_cmd, Sys_exists ''f0.jpg'', Sys_getsize ''f0.jpg'']"
    by (simp add: perform_ocr_on_frame_def check_tesseract_def frame_body_def
          empty_file_world_def sound_world_def)
qed

text \<open>
  Claim C9. \<open>perform_ocr_on_frame\<close> returns a text and the text is never the empty
  string: it is \<open>"No text detected"\<close>, or it starts with \<open>"Error:"\<close>, or it is the
  non-empty stripped result of a recognition call. So the test \<open>not extracted_text\<close> of
  the batch is never true for a text of this function.
\<close>

theorem frame_text_never_empty:
  "(\<exists>t. fst (perform_ocr_on_frame w p) = Inr t \<and> t \<noteq> []
      \<and> (t = ''No text detected'' \<or> startswith t ''Error:''
           \<or> (\<exists>im config raw. image_to_string w im config = Inr raw \<and> t = strip raw)))
   \<and> fst (perform_ocr_on_frame w p) \<noteq> Inr []"
proof -
  let ?P = "\<lambda>t. t \<noteq> [] \<and> (t = ''No text detected'' \<or> startswith t ''Error:''
           \<or> (\<exists>im config raw. image_to_string w im config = Inr raw \<and> t = strip raw))"
  have img: "\<exists>t. fst (recognize_image w p) = Inr t \<and> ?P t"
  proof (cases "image_open w p")
    case (Inl e)
    then show ?thesis
      by (simp add: recognize_image_def startswith_def)
  next
    case (Inr img)
    show ?thesis
    proof (cases "recognition_results w img")
      case Nil
      then show ?thesis using Inr
        by (simp add: recognize_image_def no_text_detected_def)
    next
      case (Cons c cs)
      have "max_scan c cs \<in> set (recognition_results w img)"
        using max_scan_mem [of c cs] Cons by simp
      then have "?P (max_scan c cs)"
        using recognition_results_mem [of "max_scan c cs" w img] by blast
      moreover have "fst (recognize_image w p) = Inr (max_scan c cs)"
        using Inr Cons by (simp add: recognize_image_def max_by_len_def)
      ultimately show ?thesis by blast
    qed
  qed
  have body: "(\<exists>e. fst (frame_body w p) = Inl e) \<or> (\<exists>t. fst (frame_body w p) = Inr t \<and> ?P t)"
  proof (cases "os_path_exists w p")
    case False
    then show ?thesis by (simp add: frame_body_def startswith_def)
  next
    case True
    show ?thesis
    proof (cases "os_path_getsize w p")
      case (Inl e)
      then show ?thesis using True by (simp add: frame_body_def)
    next
      case (Inr n)
      show ?thesis
      proof (cases "n = 0")
        case True
        then show ?thesis using Inr \<open>os_path_exists w p\<close>
          by (simp add: frame_body_def startswith_def)
      next
        case False
        then have "fst (frame_body w p) = fst (recognize_image w p)"
          using Inr True by (simp add: frame_body_def split: prod.splits)
        then show ?thesis using img by simp
      qed
    qed
  qed
  obtain b probe where chk: "check_tesseract w = (Inr b, probe)"
    using check_tesseract_total [of w] by (cases "check_tesseract w") auto
  have "\<exists>t. fst (perform_ocr_on_frame w p) = Inr t \<and> ?P t"
  proof (cases b)
    case False
    then show ?thesis using chk
      by (simp add: perform_ocr_on_frame_def startswith_def)
  next
    case True
    from body show ?thesis
    proof
      assume "\<exists>e. fst (frame_body w p) = Inl e"
      then have "fst (perform_ocr_on_frame w p) = Inr ''Error: OCR processing failed for this frame''"
        using chk True by (cases "frame_body w p") (auto simp add: perform_ocr_on_frame_def)
      then show ?thesis by (simp add: startswith_def)
    next
      assume "\<exists>t. fst (frame_body w p) = Inr t \<and> ?P t"
      then obtain t where t: "fst (frame_body w p) = Inr t" and P: "?P t" by blast
      have "fst (perform_ocr_on_frame w p) = Inr t"
        using chk True t by (cases "frame_body w p") (auto simp add: perform_ocr_on_frame_def)
      then show ?thesis using P by blast
    qed
  qed
  then show ?thesis by auto
qed

section \<open>Properties of the frame extractor\<close>

lemma write_test_ok: "probe_ok w d \<Longrightarrow> fst (write_test w d) = None"
  by (simp add: write_test_def probe_ok_def)

lemma write_test_calls_head:
  "\<exists>rest. snd (write_test w d) = Sys_write (test_file d) ''test'' # rest
      \<and> set rest \<subseteq> {Sys_remove (test_file d)}"
  by (auto simp add: write_test_def split: option.splits)

lemma write_test_fail:
  "\<not> probe_ok w d \<Longrightarrow>
     \<exists>perm_err. (write_file w (test_file d) ''test'' = Some perm_err
                  \<or> os_remove w (test_file d) = Some perm_err)
       \<and> fst (write_test w d) =
           Some (PyExn PermissionError (''Cannot write to output directory: '' @ str_exn perm_err))"
  by (auto simp add: write_test_def probe_ok_def split: option.splits)

lemma ensure_output_dir_ready: "dir_ready w d \<Longrightarrow> fst (ensure_output_dir w d) = None"
  by (auto simp add: ensure_output_dir_def dir_ready_def)

lemma ensure_output_dir_calls:
  "snd (ensure_output_dir w d) =
     (if os_path_exists w d then [Sys_exists d] else [Sys_exists d, Sys_makedirs d])"
  by (simp add: ensure_output_dir_def)

lemma extract_after_source:
  assumes "source_ok w p"
  shows "extract_frames_from_image w p d =
     (case fst (ensure_output_dir w d) of
        Some e \<Rightarrow> (Inl e, [Sys_exists p, Sys_getsize p] @ snd (ensure_output_dir w d))
      | None \<Rightarrow>
          (case fst (write_test w d) of
             Some perm_err \<Rightarrow>
               (Inl perm_err,
                [Sys_exists p, Sys_getsize p] @ snd (ensure_output_dir w d) @ snd (write_test w d))
           | None \<Rightarrow>
               (fst (read_frames w p d),
                [Sys_exists p, Sys_getsize p] @ snd (ensure_output_dir w d) @ snd (write_test w d)
                  @ snd (read_frames w p d))))"
  using assms
  by (cases "os_path_getsize w p"; cases "ensure_output_dir w d"; cases "write_test w d";
      cases "read_frames w p d")
     (auto simp add: extract_frames_from_image_def source_ok_def split: option.splits)

lemma read_frames_result:
  "fst (read_frames w p d) =
     (case image_open w p of
        Inl e \<Rightarrow> Inl (PyExn ValueError (''Invalid image file: '' @ str_exn e))
      | Inr img \<Rightarrow>
          (case n_frames w img of
             Inl e \<Rightarrow> Inl (PyExn ValueError (''Invalid image file: '' @ str_exn e))
           | Inr k \<Rightarrow>
               if fst (frames_loop w img k d) = []
               then Inl (PyExn ValueError
                           ''Invalid image file: No frames could be extracted from the image'')
               else Inr (fst (frames_loop w img k d))))"
  by (simp add: read_frames_def invalid_image_def no_frames_error_def
        split: sum.splits prod.splits)

lemma read_frames_calls_head:
  "\<exists>rest. snd (read_frames w p d) = Sys_image_open p # rest"
  by (simp add: read_frames_def split: sum.splits prod.splits)

lemma trace_no_open_before_frames:
  "Sys_image_open p \<notin> set ([Sys_exists p, Sys_getsize p] @ snd (ensure_output_dir w d) @ snd (write_test w d))"
  using write_test_calls_head [of w d]
  by (auto simp add: ensure_output_dir_calls)

text \<open>
  Claim C5, amended. The checks run in this order, before the image is opened: a
  missing source raises \<open>FileNotFoundError\<close>; a source of zero bytes raises \<open>ValueError\<close>
  "Image file is empty"; a marker file that cannot be written and removed in the output
  directory raises \<open>PermissionError\<close>. After the checks, \<open>ValueError\<close> "Invalid image
  file: ..." is raised both when the source cannot be opened or its frame count cannot
  be read (with the codec's message) and when it opened but no frame was saved (with
  "No frames could be extracted from the image"). An exception of \<open>os.path.getsize\<close> or
  of \<open>os.makedirs\<close> is raised unchanged. In every other case the function returns the
  non-empty list of the saved paths. The four named errors are pairwise different.
\<close>

theorem extract_outcomes:
  "(\<not> os_path_exists w p \<longrightarrow>
      extract_frames_from_image w p d =
        (Inl (PyExn FileNotFoundError (''Image file not found: '' @ p)), [Sys_exists p]))
   \<and> (os_path_exists w p \<and> os_path_getsize w p = Inr 0 \<longrightarrow>
      extract_frames_from_image w p d =
        (Inl (PyExn ValueError (''Image file is empty: '' @ p)), [Sys_exists p, Sys_getsize p]))
   \<and> (source_ok w p \<and> dir_ready w d \<and> \<not> probe_ok w d \<longrightarrow>
      (\<exists>perm_err. fst (extract_frames_from_image w p d) =
          Inl (PyExn PermissionError (''Cannot write to output directory: '' @ str_exn perm_err)))
      \<and> Sys_image_open p \<notin> set (snd (extract_frames_from_image w p d)))
   \<and> (source_ok w p \<and> dir_ready w d \<and> probe_ok w d \<and> image_open w p = Inr img
        \<and> n_frames w img = Inr k \<and> fst (frames_loop w img k d) = [] \<longrightarrow>
      fst (extract_frames_from_image w p d) =
        Inl (PyExn ValueError ''Invalid image file: No frames could be extracted from the image''))
   \<and> (source_ok w p \<and> dir_ready w d \<and> probe_ok w d
        \<and> (image_open w p = Inl e \<or> (image_open w p = Inr img \<and> n_frames w img = Inl e)) \<longrightarrow>
      fst (extract_frames_from_image w p d) =
        Inl (PyExn ValueError (''Invalid image file: '' @ str_exn e)))
   \<and> (source_ok w p \<and> dir_ready w d \<and> probe_ok w d \<and> image_open w p = Inr img
        \<and> n_frames w img = Inr k \<and> fst (frames_loop w img k d) \<noteq> [] \<longrightarrow>
      fst (extract_frames_from_image w p d) = Inr (fst (frames_loop w img k d)))
   \<and> (source_ok w p \<and> dir_ready w d \<and> probe_ok w d \<longrightarrow>
      (\<exists>rest. snd (extract_frames_from_image w p d) =
         [Sys_exists p, Sys_getsize p] @ snd (ensure_output_dir w d) @ snd (write_test w d)
           @ Sys_image_open p # rest))
   \<and> (os_path_exists w p \<and> os_path_getsize w p = Inl e \<longrightarrow>
      fst (extract_frames_from_image w p d) = Inl e)
   \<and> (source_ok w p \<and> \<not> os_path_exists w d \<and> os_makedirs w d = Some e \<longrightarrow>
      fst (extract_frames_from_image w p d) = Inl e)
   \<and> distinct
        [PyExn FileNotFoundError (''Image file not found: '' @ p),
         PyExn ValueError (''Image file is empty: '' @ p),
         PyExn PermissionError (''Cannot write to output directory: '' @ msg),
         PyExn ValueError ''Invalid image file: No frames could be extracted from the image'']"
proof (intro conjI impI)
  assume "\<not> os_path_exists w p"
  then show "extract_frames_from_image w p d =
        (Inl (PyExn FileNotFoundError (''Image file not found: '' @ p)), [Sys_exists p])"
    by (simp add: extract_frames_from_image_def)
next
  assume "os_path_exists w p \<and> os_path_getsize w p = Inr 0"
  then show "extract_frames_from_image w p d =
        (Inl (PyExn ValueError (''Image file is empty: '' @ p)), [Sys_exists p, Sys_getsize p])"
    by (simp add: extract_frames_from_image_def)
next
  assume a: "source_ok w p \<and> dir_ready w d \<and> \<not> probe_ok w d"
  then obtain perm_err where pe: "fst (write_test w d) =
           Some (PyExn PermissionError (''Cannot write to output directory: '' @ str_exn perm_err))"
    using write_test_fail [of w d] by blast
  have run: "extract_frames_from_image w p d =
      (Inl (PyExn PermissionError (''Cannot write to output directory: '' @ str_exn perm_err)),
       [Sys_exists p, Sys_getsize p] @ snd (ensure_output_dir w d) @ snd (write_test w d))"
    using a pe by (simp add: extract_after_source ensure_output_dir_ready)
  show "\<exists>perm_err. fst (extract_frames_from_image w p d) =
          Inl (PyExn PermissionError (''Cannot write to output directory: '' @ str_exn perm_err))"
    using run by auto
  show "Sys_image_open p \<notin> set (snd (extract_frames_from_image w p d))"
    unfolding run snd_conv by (rule trace_no_open_before_frames)
next
  assume a: "source_ok w p \<and> dir_ready w d \<and> probe_ok w d \<and> image_open w p = Inr img
        \<and> n_frames w img = Inr k \<and> fst (frames_loop w img k d) = []"
  then show "fst (extract_frames_from_image w p d) =
        Inl (PyExn ValueError ''Invalid image file: No frames could be extracted from the image'')"
    by (simp add: extract_after_source ensure_output_dir_ready write_test_ok read_frames_result)
next
  assume a: "source_ok w p \<and> dir_ready w d \<and> probe_ok w d
        \<and> (image_open w p = Inl e \<or> (image_open w p = Inr img \<and> n_frames w img = Inl e))"
  then have "fst (read_frames w p d) = Inl (PyExn ValueError (''Invalid image file: '' @ str_exn e))"
    by (auto simp add: read_frames_result)
  then show "fst (extract_frames_from_image w p d) =
        Inl (PyExn ValueError (''Invalid image file: '' @ str_exn e))"
    using a by (simp add: extract_after_source ensure_output_dir_ready write_test_ok)
next
  assume a: "source_ok w p \<and> dir_ready w d \<and> probe_ok w d \<and> image_open w p = Inr img
        \<and> n_frames w img = Inr k \<and> fst (frames_loop w img k d) \<noteq> []"
  then show "fst (extract_frames_from_image w p d) = Inr (fst (frames_loop w img k d))"
    by (simp add: extract_after_source ensure_output_dir_ready write_test_ok read_frames_result)
next
  assume a: "source_ok w p \<and> dir_ready w d \<and> probe_ok w d"
  obtain rest where "snd (read_frames w p d) = Sys_image_open p # rest"
    using read_frames_calls_head [of w p d] by blast
  then show "\<exists>rest. snd (extract_frames_from_image w p d) =
         [Sys_exists p, Sys_getsize p] @ snd (ensure_output_dir w d) @ snd (write_test w d)
           @ Sys_image_open p # rest"
    using a by (simp add: extract_after_source ensure_output_dir_ready write_test_ok)
next
  assume "os_path_exists w p \<and> os_path_getsize w p = Inl e"
  then show "fst (extract_frames_from_image w p d) = Inl e"
    by (simp add: extract_frames_from_image_def)
next
  assume a: "source_ok w p \<and> \<not> os_path_exists w d \<and> os_makedirs w d = Some e"
  then have "fst (ensure_output_dir w d) = Some e"
    by (simp add: ensure_output_dir_def)
  then show "fst (extract_frames_from_image w p d) = Inl e"
    using a by (simp add: extract_after_source)
next
  show "distinct
        [PyExn FileNotFoundError (''Image file not found: '' @ p),
         PyExn ValueError (''Image file is empty: '' @ p),
         PyExn PermissionError (''Cannot write to output directory: '' @ msg),
         PyExn ValueError ''Invalid image file: No frames could be extracted from the image'']"
    by simp
qed

text \<open>
  Claim C5, as the spec states it: the function succeeds unless one of the four
  conditions holds. Here the source exists and is not empty, the output directory
  exists and is writable, the source did not open, and the function fails.
\<close>

theorem extract_outcomes_counterexample:
  "os_path_exists unreadable_world ''a.gif''
   \<and> os_path_getsize unreadable_world ''a.gif'' = Inr 2048
   \<and> os_path_exists unreadable_world ''out''
   \<and> fst (write_test unreadable_world ''out'') = None
   \<and> image_open unreadable_world ''a.gif'' = Inl (PyExn OSError ''cannot identify image file'')
   \<and> fst (extract_frames_from_image unreadable_world ''a.gif'' ''out'') =
       Inl (PyExn ValueError ''Invalid image file: cannot identify image file'')"
  by (simp add: unreadable_world_def sound_world_def write_test_def extract_frames_from_image_def
        ensure_output_dir_def read_frames_def invalid_image_def)

lemma sound_loop:
  "fst (frames_loop sound_world (Decoded ''a.gif'' 0) 2 ''out'') =
     [''out/frame_0_c0ffee.jpg'', ''out/frame_1_c0ffee.jpg'']"
  by code_simp

lemma unsaved_loop:
  "fst (frames_loop unsaved_world (Decoded ''a.gif'' 0) 2 ''out'') = []"
  by code_simp

theorem extract_outcomes_witness:
  "fst (extract_frames_from_image missing_file_world ''a.gif'' ''out'') =
      Inl (PyExn FileNotFoundError ''Image file not found: a.gif'')
   \<and> fst (extract_frames_from_image empty_file_world ''a.gif'' ''out'') =
      Inl (PyExn ValueError ''Image file is empty: a.gif'')
   \<and> (\<exists>perm_err. fst (extract_frames_from_image readonly_world ''a.gif'' ''out'') =
      Inl (PyExn PermissionError (''Cannot write to output directory: '' @ str_exn perm_err)))
   \<and> fst (extract_frames_from_image unsaved_world ''a.gif'' ''out'') =
      Inl (PyExn ValueError ''Invalid image file: No frames could be extracted from the image'')
   \<and> fst (extract_frames_from_image unreadable_world ''a.gif'' ''out'') =
      Inl (PyExn ValueError ''Invalid image file: cannot identify image file'')
   \<and> fst (extract_frames_from_image sound_world ''a.gif'' ''out'') =
      Inr [''out/frame_0_c0ffee.jpg'', ''out/frame_1_c0ffee.jpg'']"
proof (intro conjI)
  note missing = extract_outcomes [where w = missing_file_world and p = "''a.gif''" and d = "''out''",
      THEN conjunct1]
  have "\<not> os_path_exists missing_file_world ''a.gif''"
    by (simp add: missing_file_world_def sound_world_def)
  with missing show "fst (extract_frames_from_image missing_file_world ''a.gif'' ''out'') =
      Inl (PyExn FileNotFoundError ''Image file not found: a.gif'')"
    by simp
next
  note empty = extract_outcomes [where w = empty_file_world and p = "''a.gif''" and d = "''out''",
      THEN conjunct2, THEN conjunct1]
  have "os_path_exists empty_file_world ''a.gif'' \<and> os_path_getsize empty_file_world ''a.gif'' = Inr 0"
    by (simp add: empty_file_world_def sound_world_def)
  with empty show "fst (extract_frames_from_image empty_file_world ''a.gif'' ''out'') =
      Inl (PyExn ValueError ''Image file is empty: a.gif'')"
    by simp
next
  note readonly = extract_outcomes [where w = readonly_world and p = "''a.gif''" and d = "''out''",
      THEN conjunct2, THEN conjunct2, THEN conjunct1]
  have "source_ok readonly_world ''a.gif'' \<and> dir_ready readonly_world ''out''
          \<and> \<not> probe_ok readonly_world ''out''"
    by (simp add: readonly_world_def sound_world_def source_ok_def dir_ready_def probe_ok_def)
  with readonly show "\<exists>perm_err. fst (extract_frames_from_image readonly_world ''a.gif'' ''out'') =
      Inl (PyExn PermissionError (''Cannot write to output directory: '' @ str_exn perm_err))"
    by blast
next
  note unsaved = extract_outcomes [where w = unsaved_world and p = "''a.gif''" and d = "''out''"
      and img = "Decoded ''a.gif'' 0" and k = 2,
      THEN conjunct2, THEN conjunct2, THEN conjunct2, THEN conjunct1]
  have "source_ok unsaved_world ''a.gif'' \<and> dir_ready unsaved_world ''out''
          \<and> probe_ok unsaved_world ''out''
          \<and> image_open unsaved_world ''a.gif'' = Inr (Decoded ''a.gif'' 0)
          \<and> n_frames unsaved_world (Decoded ''a.gif'' 0) = Inr 2"
    by (simp add: unsaved_world_def sound_world_def source_ok_def dir_ready_def probe_ok_def)
  with unsaved unsaved_loop
  show "fst (extract_frames_from_image unsaved_world ''a.gif'' ''out'') =
      Inl (PyExn ValueError ''Invalid image file: No frames could be extracted from the image'')"
    by blast
next
  note unreadable = extract_outcomes [where w = unreadable_world and p = "''a.gif''" and d = "''out''"
      and e = "PyExn OSError ''cannot identify image file''",
      THEN conjunct2, THEN conjunct2, THEN conjunct2, THEN conjunct2, THEN conjunct1]
  have "source_ok unreadable_world ''a.gif'' \<and> dir_ready unreadable_world ''out''
          \<and> probe_ok unreadable_world ''out''
          \<and> image_open unreadable_world ''a.gif'' = Inl (PyExn OSError ''cannot identify image file'')"
    by (simp add: unreadable_world_def sound_world_def source_ok_def dir_ready_def probe_ok_def)
  with unreadable
  have "fst (extract_frames_from_image unreadable_world ''a.gif'' ''out'') =
      Inl (PyExn ValueError
             (''Invalid image file: '' @ str_exn (PyExn OSError ''cannot identify image file'')))"
    by blast
  then show "fst (extract_frames_from_image unreadable_world ''a.gif'' ''out'') =
      Inl (PyExn ValueError ''Invalid image file: cannot identify image file'')"
    by simp
next
  note sound = extract_outcomes [where w = sound_world and p = "''a.gif''" and d = "''out''"
      and img = "Decoded ''a.gif'' 0" and k = 2,
      THEN conjunct2, THEN conjunct2, THEN conjunct2, THEN conjunct2, THEN conjunct2,
      THEN conjunct1]
  have "source_ok sound_world ''a.gif'' \<and> dir_ready sound_world ''out''
          \<and> probe_ok sound_world ''out''
          \<and> image_open sound_world ''a.gif'' = Inr (Decoded ''a.gif'' 0)
          \<and> n_frames sound_world (Decoded ''a.gif'' 0) = Inr 2"
    by (simp add: sound_world_def source_ok_def dir_ready_def probe_ok_def)
  moreover have "fst (frames_loop sound_world (Decoded ''a.gif'' 0) 2 ''out'') \<noteq> []"
    by (simp add: sound_loop)
  ultimately have "fst (extract_frames_from_image sound_world ''a.gif'' ''out'') =
      Inr (fst (frames_loop sound_world (Decoded ''a.gif'' 0) 2 ''out''))"
    using sound by blast
  then show "fst (extract_frames_from_image sound_world ''a.gif'' ''out'') =
      Inr [''out/frame_0_c0ffee.jpg'', ''out/frame_1_c0ffee.jpg'']"
    by (simp add: sound_loop)
qed

text \<open>
  Claim C8, amended. The passes are contrast 1.5, then sharpness 1.5 on the result, then
  brightness 1.2 on that result. When a pass raises, the later passes are skipped and
  the frame is the result of the passes completed before it: the frame as it was before
  the passes only when the contrast pass raises. In every case the extractor goes on to
  save that frame; it does not drop the frame or abort.
\<close>

theorem enhancement_passes:
  "(img_enhance w Contrast 1.5 frame = Inr c \<and> img_enhance w Sharpness 1.5 c = Inr s
      \<and> img_enhance w Brightness 1.2 s = Inr b \<longrightarrow> enhance_frame w frame = b)
   \<and> (img_enhance w Contrast 1.5 frame = Inl e \<longrightarrow> enhance_frame w frame = frame)
   \<and> (img_enhance w Contrast 1.5 frame = Inr c \<and> img_enhance w Sharpness 1.5 c = Inl e
      \<longrightarrow> enhance_frame w frame = c)
   \<and> (img_enhance w Contrast 1.5 frame = Inr c \<and> img_enhance w Sharpness 1.5 c = Inr s
      \<and> img_enhance w Brightness 1.2 s = Inl e \<longrightarrow> enhance_frame w frame = s)
   \<and> ((if 1 < frames_count then img_seek w img i else None) = None
      \<and> img_copy w img i = Inr raw
      \<and> (if img_mode w raw = ''RGBA'' \<or> img_mode w raw = ''P''
          then img_convert w ''RGB'' raw else Inr raw) = Inr frame
      \<longrightarrow> (\<exists>r rest. process_frame w img frames_count d i =
             (r, Sys_image_save (enhance_frame w frame) (os_path_join d (frame_filename w i))
                   # rest)))"
proof (intro conjI impI)
  assume "img_enhance w Contrast 1.5 frame = Inr c \<and> img_enhance w Sharpness 1.5 c = Inr s
      \<and> img_enhance w Brightness 1.2 s = Inr b"
  then show "enhance_frame w frame = b" by (simp add: enhance_frame_def)
next
  assume "img_enhance w Contrast 1.5 frame = Inl e"
  then show "enhance_frame w frame = frame" by (simp add: enhance_frame_def)
next
  assume "img_enhance w Contrast 1.5 frame = Inr c \<and> img_enhance w Sharpness 1.5 c = Inl e"
  then show "enhance_frame w frame = c" by (simp add: enhance_frame_def)
next
  assume "img_enhance w Contrast 1.5 frame = Inr c \<and> img_enhance w Sharpness 1.5 c = Inr s
      \<and> img_enhance w Brightness 1.2 s = Inl e"
  then show "enhance_frame w frame = s" by (simp add: enhance_frame_def)
next
  assume a: "(if 1 < frames_count then img_seek w img i else None) = None
      \<and> img_copy w img i = Inr raw
      \<and> (if img_mode w raw = ''RGBA'' \<or> img_mode w raw = ''P''
          then img_convert w ''RGB'' raw else Inr raw) = Inr frame"
  then show "\<exists>r rest. process_frame w img frames_count d i =
             (r, Sys_image_save (enhance_frame w frame) (os_path_join d (frame_filename w i))
                   # rest)"
    by (simp add: process_frame_def Let_def split: option.splits sum.splits)
qed

text \<open>
  Claim C8, as the spec states it: after a failing pass the frame is the one from before
  the three passes. With a sharpness pass that raises, the frame saved is the
  contrast-enhanced one.
\<close>

theorem enhancement_passes_counterexample:
  "process_frame (pass_fails_world Sharpness) (Decoded ''a.gif'' 0) 1 ''out'' 0 =
     (Some ''out/frame_0_c0ffee.jpg'',
      [Sys_image_save (Enhanced Contrast 1.5 (Converted ''RGB'' (Decoded ''a.gif'' 0)))
         ''out/frame_0_c0ffee.jpg'',
       Sys_exists ''out/frame_0_c0ffee.jpg'', Sys_getsize ''out/frame_0_c0ffee.jpg''])
   \<and> enhance_frame (pass_fails_world Sharpness) (Converted ''RGB'' (Decoded ''a.gif'' 0))
        \<noteq> Converted ''RGB'' (Decoded ''a.gif'' 0)"
proof
  show "process_frame (pass_fails_world Sharpness) (Decoded ''a.gif'' 0) 1 ''out'' 0 =
     (Some ''out/frame_0_c0ffee.jpg'',
      [Sys_image_save (Enhanced Contrast 1.5 (Converted ''RGB'' (Decoded ''a.gif'' 0)))
         ''out/frame_0_c0ffee.jpg'',
       Sys_exists ''out/frame_0_c0ffee.jpg'', Sys_getsize ''out/frame_0_c0ffee.jpg''])"
    by code_simp
  show "enhance_frame (pass_fails_world Sharpness) (Converted ''RGB'' (Decoded ''a.gif'' 0))
        \<noteq> Converted ''RGB'' (Decoded ''a.gif'' 0)"
    by (simp add: enhance_frame_def pass_fails_world_def sound_world_def)
qed

theorem enhancement_passes_witness:
  "enhance_frame sound_world (Decoded ''a.gif'' 0) =
     Enhanced Brightness 1.2 (Enhanced Sharpness 1.5 (Enhanced Contrast 1.5 (Decoded ''a.gif'' 0)))
   \<and> enhance_frame (pass_fails_world Contrast) (Decoded ''a.gif'' 0) = Decoded ''a.gif'' 0
   \<and> enhance_frame (pass_fails_world Sharpness) (Decoded ''a.gif'' 0) =
       Enhanced Contrast 1.5 (Decoded ''a.gif'' 0)
   \<and> enhance_frame (pass_fails_world Brightness) (Decoded ''a.gif'' 0) =
       Enhanced Sharpness 1.5 (Enhanced Contrast 1.5 (Decoded ''a.gif'' 0))
   \<and> (\<exists>r rest. process_frame (pass_fails_world Brightness) (Decoded ''a.gif'' 0) 2 ''out'' 1 =
         (r, Sys_image_save
               (enhance_frame (pass_fails_world Brightness) (Converted ''RGB'' (Decoded ''a.gif'' 1)))
               (os_path_join ''out'' (frame_filename (pass_fails_world Brightness) 1)) # rest))"
proof (intro conjI)
  let ?x = "Decoded ''a.gif'' 0"
  have "img_enhance sound_world Contrast 1.5 ?x = Inr (Enhanced Contrast 1.5 ?x)
      \<and> img_enhance sound_world Sharpness 1.5 (Enhanced Contrast 1.5 ?x)
            = Inr (Enhanced Sharpness 1.5 (Enhanced Contrast 1.5 ?x))
      \<and> img_enhance sound_world Brightness 1.2 (Enhanced Sharpness 1.5 (Enhanced Contrast 1.5 ?x))
            = Inr (Enhanced Brightness 1.2 (Enhanced Sharpness 1.5 (Enhanced Contrast 1.5 ?x)))"
    by (simp add: sound_world_def)
  with enhancement_passes [where w = sound_world and frame = ?x, THEN conjunct1]
  show "enhance_frame sound_world ?x =
     Enhanced Brightness 1.2 (Enhanced Sharpness 1.5 (Enhanced Contrast 1.5 ?x))"
    by blast
next
  let ?x = "Decoded ''a.gif'' 0"
  have "img_enhance (pass_fails_world Contrast) Contrast 1.5 ?x
          = Inl (PyExn ValueError ''image has wrong mode'')"
    by (simp add: pass_fails_world_def sound_world_def)
  with enhancement_passes [where w = "pass_fails_world Contrast" and frame = ?x, THEN conjunct2, THEN conjunct1]
  show "enhance_frame (pass_fails_world Contrast) ?x = ?x"
    by blast
next
  let ?x = "Decoded ''a.gif'' 0"
  have "img_enhance (pass_fails_world Sharpness) Contrast 1.5 ?x = Inr (Enhanced Contrast 1.5 ?x)
      \<and> img_enhance (pass_fails_world Sharpness) Sharpness 1.5 (Enhanced Contrast 1.5 ?x)
            = Inl (PyExn ValueError ''image has wrong mode'')"
    by (simp add: pass_fails_world_def sound_world_def)
  with enhancement_passes [where w = "pass_fails_world Sharpness" and frame = ?x,
      THEN conjunct2, THEN conjunct2, THEN conjunct1]
  show "enhance_frame (pass_fails_world Sharpness) ?x = Enhanced Contrast 1.5 ?x"
    by blast
next
  let ?x = "Decoded ''a.gif'' 0"
  have "img_enhance (pass_fails_world Brightness) Contrast 1.5 ?x = Inr (Enhanced Contrast 1.5 ?x)
      \<and> img_enhance (pass_fails_world Brightness) Sharpness 1.5 (Enhanced Contrast 1.5 ?x)
            = Inr (Enhanced Sharpness 1.5 (Enhanced Contrast 1.5 ?x))
      \<and> img_enhance (pass_fails_world Brightness) Brightness 1.2
            (Enhanced Sharpness 1.5 (Enhanced Contrast 1.5 ?x))
            = Inl (PyExn ValueError ''image has wrong mode'')"
    by (simp add: pass_fails_world_def sound_world_def)
  with enhancement_passes [where w = "pass_fails_world Brightness" and frame = ?x,
      THEN conjunct2, THEN conjunct2, THEN conjunct2, THEN conjunct1]
  show "enhance_frame (pass_fails_world Brightness) ?x =
       Enhanced Sharpness 1.5 (Enhanced Contrast 1.5 ?x)"
    by blast
next
  let ?w = "pass_fails_world Brightness"
  have "(if 1 < (2::nat) then img_seek ?w (Decoded ''a.gif'' 0) 1 else None) = None
      \<and> img_copy ?w (Decoded ''a.gif'' 0) 1 = Inr (Decoded ''a.gif'' 1)
      \<and> (if img_mode ?w (Decoded ''a.gif'' 1) = ''RGBA'' \<or> img_mode ?w (Decoded ''a.gif'' 1) = ''P''
          then img_convert ?w ''RGB'' (Decoded ''a.gif'' 1) else Inr (Decoded ''a.gif'' 1))
           = Inr (Converted ''RGB'' (Decoded ''a.gif'' 1))"
    by (simp add: pass_fails_world_def sound_world_def)
  with enhancement_passes [where w = ?w and img = "Decoded ''a.gif'' 0" and frames_count = 2 and i = 1
      and raw = "Decoded ''a.gif'' 1" and frame = "Converted ''RGB'' (Decoded ''a.gif'' 1)"
      and d = "''out''",
      THEN conjunct2, THEN conjunct2, THEN conjunct2, THEN conjunct2]
  show "\<exists>r rest. process_frame ?w (Decoded ''a.gif'' 0) 2 ''out'' 1 =
         (r, Sys_image_save (enhance_frame ?w (Converted ''RGB'' (Decoded ''a.gif'' 1)))
               (os_path_join ''out'' (frame_filename ?w 1)) # rest)"
    by blast
qed

lemma read_frames_error_type:
  "fst (read_frames w p d) = Inl e \<Longrightarrow> exn_type e = ValueError"
  by (auto simp add: read_frames_result split: sum.splits if_splits)

text \<open>
  Claim C10, as the spec states it: with a missing output directory the function creates
  it and proceeds, and does not fail with \<open>PermissionError\<close> or \<open>FileNotFoundError\<close>.
  Here the source passed its checks and the directory is missing; in the first world
  \<open>os.makedirs\<close> raises \<open>PermissionError\<close> and the function raises it, before any write
  test; in the second the directory is created, the write test fails on it and the
  function raises the \<open>PermissionError\<close> of the write test.
\<close>

theorem missing_output_dir_is_created_counterexample:
  "source_ok uncreatable_world ''a.gif''
   \<and> \<not> os_path_exists uncreatable_world ''out''
   \<and> extract_frames_from_image uncreatable_world ''a.gif'' ''out'' =
       (Inl (PyExn PermissionError ''[Errno 13] Permission denied: out''),
        [Sys_exists ''a.gif'', Sys_getsize ''a.gif'', Sys_exists ''out'', Sys_makedirs ''out''])
   \<and> source_ok locked_dir_world ''a.gif''
   \<and> \<not> os_path_exists locked_dir_world ''out''
   \<and> os_makedirs locked_dir_world ''out'' = None
   \<and> extract_frames_from_image locked_dir_world ''a.gif'' ''out'' =
       (Inl (PyExn PermissionError
               ''Cannot write to output directory: [Errno 13] Permission denied''),
        [Sys_exists ''a.gif'', Sys_getsize ''a.gif'', Sys_exists ''out'', Sys_makedirs ''out'',
         Sys_write ''out/.write_test'' ''test''])"
  by (simp add: uncreatable_world_def locked_dir_world_def sound_world_def source_ok_def
        extract_frames_from_image_def ensure_output_dir_def write_test_def test_file_def
        os_path_join_def)

text \<open>
  Claim C10, amended. For a source that passed its checks and an output directory that
  does not exist, the function calls \<open>os.makedirs\<close> on it right after the check of its
  existence. When the call returns, the write test comes after it; when the write test
  passes, the function goes on to the frames and its result is theirs, so that an
  error, if any, is a \<open>ValueError\<close>; when the write test fails on the created directory,
  the function raises the \<open>PermissionError\<close> of the write test. When \<open>os.makedirs\<close>
  raises, the function raises that exception unchanged, and no write test is made.
\<close>

theorem missing_output_dir_is_created:
  assumes "source_ok w p" and "\<not> os_path_exists w d"
  shows "(os_makedirs w d = None \<longrightarrow>
           (\<exists>rest. snd (extract_frames_from_image w p d) =
              [Sys_exists p, Sys_getsize p, Sys_exists d, Sys_makedirs d,
               Sys_write (test_file d) ''test''] @ rest)
           \<and> (probe_ok w d \<longrightarrow>
                fst (extract_frames_from_image w p d) = fst (read_frames w p d)
                \<and> (\<forall>e. fst (extract_frames_from_image w p d) = Inl e \<longrightarrow>
                      exn_type e = ValueError))
           \<and> (\<not> probe_ok w d \<longrightarrow>
                (\<exists>perm_err. fst (extract_frames_from_image w p d) =
                   Inl (PyExn PermissionError
                          (''Cannot write to output directory: '' @ str_exn perm_err)))))
       \<and> (\<forall>e. os_makedirs w d = Some e \<longrightarrow>
            extract_frames_from_image w p d =
              (Inl e, [Sys_exists p, Sys_getsize p, Sys_exists d, Sys_makedirs d]))"
proof (intro conjI impI allI)
  assume created: "os_makedirs w d = None"
  have made: "ensure_output_dir w d = (None, [Sys_exists d, Sys_makedirs d])"
    using assms created by (simp add: ensure_output_dir_def)
  obtain probe where probe: "snd (write_test w d) = Sys_write (test_file d) ''test'' # probe"
    using write_test_calls_head [of w d] by blast
  show "\<exists>rest. snd (extract_frames_from_image w p d) =
           [Sys_exists p, Sys_getsize p, Sys_exists d, Sys_makedirs d,
            Sys_write (test_file d) ''test''] @ rest"
    using assms(1) made probe
    by (cases "fst (write_test w d)") (simp_all add: extract_after_source)
  {
    assume ok: "probe_ok w d"
    show run: "fst (extract_frames_from_image w p d) = fst (read_frames w p d)"
      using assms(1) made ok by (simp add: extract_after_source write_test_ok)
    fix e assume "fst (extract_frames_from_image w p d) = Inl e"
    then show "exn_type e = ValueError"
      unfolding run using read_frames_error_type [of w p d] by blast
  }
  {
    assume "\<not> probe_ok w d"
    then obtain perm_err where "fst (write_test w d) =
           Some (PyExn PermissionError (''Cannot write to output directory: '' @ str_exn perm_err))"
      using write_test_fail [of w d] by blast
    then show "\<exists>perm_err. fst (extract_frames_from_image w p d) =
               Inl (PyExn PermissionError
                      (''Cannot write to output directory: '' @ str_exn perm_err))"
      using assms(1) made by (auto simp add: extract_after_source)
  }
next
  fix e assume "os_makedirs w d = Some e"
  then have "ensure_output_dir w d = (Some e, [Sys_exists d, Sys_makedirs d])"
    using assms by (simp add: ensure_output_dir_def)
  then show "extract_frames_from_image w p d =
              (Inl e, [Sys_exists p, Sys_getsize p, Sys_exists d, Sys_makedirs d])"
    using assms(1) by (simp add: extract_after_source)
qed

lemma fresh_read:
  "fst (read_frames fresh_dir_world ''a.gif'' ''out'') =
     Inr [''out/frame_0_c0ffee.jpg'', ''out/frame_1_c0ffee.jpg'']"
  by code_simp

theorem missing_output_dir_is_created_witness:
  "fst (extract_frames_from_image fresh_dir_world ''a.gif'' ''out'') =
     Inr [''out/frame_0_c0ffee.jpg'', ''out/frame_1_c0ffee.jpg'']
   \<and> (\<exists>rest. snd (extract_frames_from_image fresh_dir_world ''a.gif'' ''out'') =
           [Sys_exists ''a.gif'', Sys_getsize ''a.gif'', Sys_exists ''out'', Sys_makedirs ''out'',
            Sys_write ''out/.write_test'' ''test''] @ rest)
   \<and> (\<exists>perm_err. fst (extract_frames_from_image locked_dir_world ''a.gif'' ''out'') =
           Inl (PyExn PermissionError (''Cannot write to output directory: '' @ str_exn perm_err)))
   \<and> extract_frames_from_image uncreatable_world ''a.gif'' ''out'' =
       (Inl (PyExn PermissionError ''[Errno 13] Permission denied: out''),
        [Sys_exists ''a.gif'', Sys_getsize ''a.gif'', Sys_exists ''out'', Sys_makedirs ''out''])"
proof (intro conjI)
  have src: "source_ok fresh_dir_world ''a.gif''"
    by (simp add: source_ok_def fresh_dir_world_def sound_world_def)
  have absent: "\<not> os_path_exists fresh_dir_world ''out''"
    by (simp add: fresh_dir_world_def sound_world_def)
  have created: "os_makedirs fresh_dir_world ''out'' = None"
    by (simp add: fresh_dir_world_def sound_world_def)
  have ok: "probe_ok fresh_dir_world ''out''"
    by (simp add: probe_ok_def fresh_dir_world_def sound_world_def)
  have marker: "test_file ''out'' = ''out/.write_test''"
    by (simp add: test_file_def os_path_join_def)
  note t = missing_output_dir_is_created [OF src absent, THEN conjunct1, rule_format, OF created]
  from t ok have "fst (extract_frames_from_image fresh_dir_world ''a.gif'' ''out'') =
      fst (read_frames fresh_dir_world ''a.gif'' ''out'')"
    by blast
  then show "fst (extract_frames_from_image fresh_dir_world ''a.gif'' ''out'') =
     Inr [''out/frame_0_c0ffee.jpg'', ''out/frame_1_c0ffee.jpg'']"
    by (simp add: fresh_read)
  from t show "\<exists>rest. snd (extract_frames_from_image fresh_dir_world ''a.gif'' ''out'') =
           [Sys_exists ''a.gif'', Sys_getsize ''a.gif'', Sys_exists ''out'', Sys_makedirs ''out'',
            Sys_write ''out/.write_test'' ''test''] @ rest"
    unfolding marker by blast
next
  have src: "source_ok locked_dir_world ''a.gif''"
    by (simp add: source_ok_def locked_dir_world_def sound_world_def)
  have absent: "\<not> os_path_exists locked_dir_world ''out''"
    by (simp add: locked_dir_world_def sound_world_def)
  have created: "os_makedirs locked_dir_world ''out'' = None"
    by (simp add: locked_dir_world_def sound_world_def)
  have locked: "\<not> probe_ok locked_dir_world ''out''"
    by (simp add: probe_ok_def locked_dir_world_def sound_world_def)
  note t = missing_output_dir_is_created [OF src absent, THEN conjunct1, rule_format, OF created]
  from t locked
  show "\<exists>perm_err. fst (extract_frames_from_image locked_dir_world ''a.gif'' ''out'') =
           Inl (PyExn PermissionError (''Cannot write to output directory: '' @ str_exn perm_err))"
    by blast
next
  have src: "source_ok uncreatable_world ''a.gif''"
    by (simp add: source_ok_def uncreatable_world_def sound_world_def)
  have absent: "\<not> os_path_exists uncreatable_world ''out''"
    by (simp add: uncreatable_world_def sound_world_def)
  have failed: "os_makedirs uncreatable_world ''out'' =
      Some (PyExn PermissionError ''[Errno 13] Permission denied: out'')"
    by (simp add: uncreatable_world_def sound_world_def)
  from missing_output_dir_is_created [OF src absent, THEN conjunct2, rule_format, OF failed]
  show "extract_frames_from_image uncreatable_world ''a.gif'' ''out'' =
       (Inl (PyExn PermissionError ''[Errno 13] Permission denied: out''),
        [Sys_exists ''a.gif'', Sys_getsize ''a.gif'', Sys_exists ''out'', Sys_makedirs ''out''])"
    by simp
qed

end
